theory Spec2Isabelle
  imports Complex_Main "HOL-Library.Sublist"
begin

section \<open>JavaScript values\<close>

text \<open>
  Strings are \<^typ>\<open>string\<close>: every \<^typ>\<open>char\<close> stands for one UTF-16 code unit
  below 256, so the texts covered are the Latin-1 ones. Numbers are the IEEE values the
  source computes with, idealised: a finite number is an exact real (no rounding error,
  no overflow, one zero), next to the two infinities and NaN.
\<close>

datatype number = NaN | NegInf | Fin real | PosInf

datatype jsval = Undefined | Null | Bool bool | Num number | Str string

text \<open>
  An object is the list of its own properties in enumeration order. Members inherited
  from \<open>Object.prototype\<close> are not part of it.
\<close>

type_synonym obj = "(string \<times> jsval) list"

subsection \<open>Strings\<close>

text \<open>White space of \<open>String.prototype.trim\<close> and of the class \<open>\s\<close>, below 256.\<close>

definition is_ws :: "char \<Rightarrow> bool" where
  "is_ws c = (c \<in> set [CHR 0x09, CHR 0x0A, CHR 0x0B, CHR 0x0C, CHR 0x0D, CHR 0x20, CHR 0xA0])"

definition trimStart :: "string \<Rightarrow> string" where
  "trimStart s = dropWhile is_ws s"

definition trimEnd :: "string \<Rightarrow> string" where
  "trimEnd s = rev (dropWhile is_ws (rev s))"

definition trim :: "string \<Rightarrow> string" where
  "trim s = trimEnd (trimStart s)"

text \<open>\<open>s.split(c)\<close> for a one-character separator: the empty string gives one empty piece.\<close>

fun split_on :: "char \<Rightarrow> string \<Rightarrow> string list" where
  "split_on c [] = [[]]"
| "split_on c (x # xs) =
     (if x = c then [] # split_on c xs
      else (case split_on c xs of [] \<Rightarrow> [[x]] | l # ls \<Rightarrow> (x # l) # ls))"

text \<open>The code unit of a character.\<close>

definition code :: "char \<Rightarrow> nat" where
  "code c = of_char c"

definition is_digit :: "char \<Rightarrow> bool" where
  "is_digit c = (48 \<le> code c \<and> code c \<le> 57)"

definition digit_val :: "char \<Rightarrow> nat" where
  "digit_val c = code c - 48"

definition digits_val :: "string \<Rightarrow> nat" where
  "digits_val ds = foldl (\<lambda>a d. 10 * a + digit_val d) 0 ds"

definition is_upper :: "char \<Rightarrow> bool" where
  "is_upper c = ((65 \<le> code c \<and> code c \<le> 90) \<or>
     (192 \<le> code c \<and> code c \<le> 222 \<and> code c \<noteq> 215))"

text \<open>\<open>toLowerCase\<close> on one code unit below 256.\<close>

definition lower_char :: "char \<Rightarrow> char" where
  "lower_char c = (if is_upper c then char_of (code c + 32) else c)"

definition toLowerCase :: "string \<Rightarrow> string" where
  "toLowerCase s = map lower_char s"

text \<open>\<open>s.includes(t)\<close>.\<close>

fun str_includes :: "string \<Rightarrow> string \<Rightarrow> bool" where
  "str_includes [] t = (t = [])"
| "str_includes (x # xs) t = (take (length t) (x # xs) = t \<or> str_includes xs t)"

subsection \<open>Regular expressions\<close>

text \<open>
  The keyword patterns of the source are alternatives of literal characters with an
  optional \<open>.\<close> or an optional letter in between, all matched case-insensitively
  (flag \<open>i\<close>). A matcher state is the character before the position (for \<open>\b\<close>)
  and the rest of the input; a pattern yields every state it can end in.
\<close>

datatype atom = L char | OptDot | OptL char

definition is_word :: "char \<Rightarrow> bool" where
  "is_word c = ((97 \<le> code c \<and> code c \<le> 122) \<or> (65 \<le> code c \<and> code c \<le> 90) \<or>
     is_digit c \<or> code c = 95)"

text \<open>
  Case-insensitive comparison of a pattern character with an input character: both
  are canonicalised to upper case, and no character from 128 on is mapped below 128.
\<close>

definition upper_canon :: "char \<Rightarrow> char" where
  "upper_canon c =
     (if (97 \<le> code c \<and> code c \<le> 122) \<or> (224 \<le> code c \<and> code c \<le> 254 \<and> code c \<noteq> 247)
      then char_of (code c - 32) else c)"

definition ci_eq :: "char \<Rightarrow> char \<Rightarrow> bool" where
  "ci_eq p c = (upper_canon p = upper_canon c)"

text \<open>\<open>.\<close> matches everything but a line terminator.\<close>

definition is_line_terminator :: "char \<Rightarrow> bool" where
  "is_line_terminator c = (c = CHR 0x0A \<or> c = CHR 0x0D)"

fun rx_atoms :: "atom list \<Rightarrow> char option \<Rightarrow> string \<Rightarrow> (char option \<times> string) list" where
  "rx_atoms [] prev s = [(prev, s)]"
| "rx_atoms (L c # p) prev s =
     (case s of [] \<Rightarrow> [] | x # xs \<Rightarrow> if ci_eq c x then rx_atoms p (Some x) xs else [])"
| "rx_atoms (OptDot # p) prev s =
     (case s of [] \<Rightarrow> [] | x # xs \<Rightarrow> if is_line_terminator x then [] else rx_atoms p (Some x) xs)
     @ rx_atoms p prev s"
| "rx_atoms (OptL c # p) prev s =
     (case s of [] \<Rightarrow> [] | x # xs \<Rightarrow> if ci_eq c x then rx_atoms p (Some x) xs else [])
     @ rx_atoms p prev s"

text \<open>\<open>\b\<close>: exactly one side of the position is a word character.\<close>

definition word_boundary :: "char option \<Rightarrow> string \<Rightarrow> bool" where
  "word_boundary prev s =
     ((case prev of None \<Rightarrow> False | Some c \<Rightarrow> is_word c) \<noteq>
      (case s of [] \<Rightarrow> False | c # _ \<Rightarrow> is_word c))"

text \<open>\<open>/\b(p1|p2|...)\b/i.test(s)\<close>, scanning the start positions from the left.\<close>

fun rx_test_words :: "atom list list \<Rightarrow> char option \<Rightarrow> string \<Rightarrow> bool" where
  "rx_test_words alts prev [] =
     (word_boundary prev [] \<and>
      list_ex (\<lambda>p. list_ex (\<lambda>(q, r). word_boundary q r) (rx_atoms p prev [])) alts)"
| "rx_test_words alts prev (x # xs) =
     ((word_boundary prev (x # xs) \<and>
       list_ex (\<lambda>p. list_ex (\<lambda>(q, r). word_boundary q r) (rx_atoms p prev (x # xs))) alts)
      \<or> rx_test_words alts (Some x) xs)"

text \<open>\<open>/p1|p2|.../i.test(s)\<close>: a match anywhere.\<close>

fun rx_test_any :: "atom list list \<Rightarrow> string \<Rightarrow> bool" where
  "rx_test_any alts [] = list_ex (\<lambda>p. rx_atoms p None [] \<noteq> []) alts"
| "rx_test_any alts (x # xs) =
     (list_ex (\<lambda>p. rx_atoms p None (x # xs) \<noteq> []) alts \<or> rx_test_any alts xs)"

text \<open>\<open>/^(p1|p2|...)$/i.test(s)\<close>: one alternative matches the whole string.\<close>

definition rx_test_full :: "atom list list \<Rightarrow> string \<Rightarrow> bool" where
  "rx_test_full alts s = list_ex (\<lambda>p. list_ex (\<lambda>(q, r). r = []) (rx_atoms p None s)) alts"

definition lit :: "string \<Rightarrow> atom list" where
  "lit s = map L s"

subsection \<open>Numbers\<close>

definition isNaN :: "number \<Rightarrow> bool" where
  "isNaN n = (n = NaN)"

fun num_neg :: "number \<Rightarrow> number" where
  "num_neg NaN = NaN"
| "num_neg NegInf = PosInf"
| "num_neg PosInf = NegInf"
| "num_neg (Fin a) = Fin (- a)"

fun num_add :: "number \<Rightarrow> number \<Rightarrow> number" where
  "num_add NaN _ = NaN"
| "num_add _ NaN = NaN"
| "num_add PosInf NegInf = NaN"
| "num_add NegInf PosInf = NaN"
| "num_add PosInf _ = PosInf"
| "num_add _ PosInf = PosInf"
| "num_add NegInf _ = NegInf"
| "num_add _ NegInf = NegInf"
| "num_add (Fin a) (Fin b) = Fin (a + b)"

definition num_sub :: "number \<Rightarrow> number \<Rightarrow> number" where
  "num_sub a b = num_add a (num_neg b)"

text \<open>Division; the one zero of the model divides like \<open>+0\<close>.\<close>

fun num_div :: "number \<Rightarrow> number \<Rightarrow> number" where
  "num_div NaN _ = NaN"
| "num_div _ NaN = NaN"
| "num_div (Fin a) (Fin b) =
     (if b = 0 then (if a = 0 then NaN else if 0 < a then PosInf else NegInf) else Fin (a / b))"
| "num_div (Fin a) _ = Fin 0"
| "num_div PosInf (Fin b) = (if b < 0 then NegInf else PosInf)"
| "num_div NegInf (Fin b) = (if b < 0 then PosInf else NegInf)"
| "num_div _ _ = NaN"

text \<open>\<open>x ** 2\<close>.\<close>

fun num_sq :: "number \<Rightarrow> number" where
  "num_sq NaN = NaN"
| "num_sq (Fin a) = Fin (a * a)"
| "num_sq _ = PosInf"

text \<open>\<open>Math.sqrt\<close>.\<close>

fun num_sqrt :: "number \<Rightarrow> number" where
  "num_sqrt (Fin a) = (if a < 0 then NaN else Fin (sqrt a))"
| "num_sqrt PosInf = PosInf"
| "num_sqrt _ = NaN"

text \<open>\<open>a < b\<close> on numbers: false as soon as one side is NaN.\<close>

fun num_less :: "number \<Rightarrow> number \<Rightarrow> bool" where
  "num_less NaN _ = False"
| "num_less _ NaN = False"
| "num_less (Fin a) (Fin b) = (a < b)"
| "num_less PosInf _ = False"
| "num_less _ NegInf = False"
| "num_less _ _ = True"

text \<open>\<open>Math.min(...xs)\<close> and \<open>Math.max(...xs)\<close>.\<close>

definition Math_min :: "number list \<Rightarrow> number" where
  "Math_min xs =
     (if NaN \<in> set xs then NaN else foldr (\<lambda>a b. if num_less b a then b else a) xs PosInf)"

definition Math_max :: "number list \<Rightarrow> number" where
  "Math_max xs =
     (if NaN \<in> set xs then NaN else foldr (\<lambda>a b. if num_less a b then b else a) xs NegInf)"

text \<open>
  \<open>+(n.toFixed(d))\<close>: the nearest multiple of \<open>10^-d\<close>, a tie going away from
  zero; from \<open>10^21\<close> on \<open>toFixed\<close> prints the number itself.
\<close>

fun round_fixed :: "nat \<Rightarrow> number \<Rightarrow> number" where
  "round_fixed d (Fin x) =
     (if 10 ^ 21 \<le> \<bar>x\<bar> then Fin x
      else Fin (sgn x * real_of_int \<lfloor>\<bar>x\<bar> * 10 ^ d + 1 / 2\<rfloor> / 10 ^ d))"
| "round_fixed d n = n"

subsection \<open>Reading numbers\<close>

definition pow10 :: "int \<Rightarrow> real" where
  "pow10 e = (if 0 \<le> e then 10 ^ nat e else 1 / 10 ^ nat (- e))"

text \<open>The exponent part at the head of a string, if there is a whole one, and the rest.\<close>

definition parse_exp :: "string \<Rightarrow> int \<times> string" where
  "parse_exp s =
     (case s of
        [] \<Rightarrow> (0, s)
      | e # r \<Rightarrow>
          if e = CHR ''e'' \<or> e = CHR ''E'' then
            (let neg = (case r of [] \<Rightarrow> False | c # _ \<Rightarrow> c = CHR ''-'');
                 r1 = (case r of [] \<Rightarrow> r | c # r' \<Rightarrow> if c = CHR ''-'' \<or> c = CHR ''+'' then r' else r);
                 ds = takeWhile is_digit r1
             in if ds = [] then (0, s)
                else ((if neg then - int (digits_val ds) else int (digits_val ds)),
                      dropWhile is_digit r1))
          else (0, s))"

text \<open>The longest unsigned decimal literal at the head of a string, and the rest.\<close>

definition parse_unsigned :: "string \<Rightarrow> (number \<times> string) option" where
  "parse_unsigned s =
     (if take 8 s = ''Infinity'' then Some (PosInf, drop 8 s)
      else
        let ip = takeWhile is_digit s; r1 = dropWhile is_digit s
        in case r1 of
             [] \<Rightarrow> if ip = [] then None else Some (Fin (real (digits_val ip)), [])
           | c # r2 \<Rightarrow>
               if c = CHR ''.'' then
                 (let fp = takeWhile is_digit r2; r3 = dropWhile is_digit r2
                  in if ip = [] \<and> fp = [] then None
                     else Some (Fin ((real (digits_val ip) + real (digits_val fp) / 10 ^ length fp)
                                      * pow10 (fst (parse_exp r3))),
                                snd (parse_exp r3)))
               else if ip = [] then None
               else Some (Fin (real (digits_val ip) * pow10 (fst (parse_exp r1))),
                          snd (parse_exp r1)))"

definition parse_signed :: "string \<Rightarrow> (number \<times> string) option" where
  "parse_signed s =
     (case s of
        [] \<Rightarrow> None
      | c # r \<Rightarrow>
          if c = CHR ''-'' then map_option (\<lambda>(v, rest). (num_neg v, rest)) (parse_unsigned r)
          else if c = CHR ''+'' then parse_unsigned r
          else parse_unsigned s)"

definition parseFloat_str :: "string \<Rightarrow> number" where
  "parseFloat_str s = (case parse_signed (trimStart s) of None \<Rightarrow> NaN | Some (v, _) \<Rightarrow> v)"

text \<open>
  \<open>parseFloat(v)\<close> reads the string of its argument; the string of a number reads back
  as that number, the strings of the other values are no numbers.
\<close>

fun parseFloat :: "jsval \<Rightarrow> number" where
  "parseFloat (Str s) = parseFloat_str s"
| "parseFloat (Num n) = n"
| "parseFloat _ = NaN"

text \<open>\<open>parseInt(ds, 10)\<close> on a string of digits.\<close>

definition parseInt_digits :: "string \<Rightarrow> nat" where
  "parseInt_digits ds = digits_val ds"

definition hex_val :: "char \<Rightarrow> nat option" where
  "hex_val c =
     (if is_digit c then Some (code c - 48)
      else if 97 \<le> code c \<and> code c \<le> 102 then Some (code c - 87)
      else if 65 \<le> code c \<and> code c \<le> 70 then Some (code c - 55)
      else None)"

text \<open>A literal in base 16, 8 or 2 after its prefix: all of the string, at least one digit.\<close>

definition radix_literal :: "nat \<Rightarrow> string \<Rightarrow> number" where
  "radix_literal b ds =
     (if ds \<noteq> [] \<and> list_all (\<lambda>c. case hex_val c of None \<Rightarrow> False | Some d \<Rightarrow> d < b) ds
      then Fin (real (foldl (\<lambda>a c. b * a + the (hex_val c)) 0 ds))
      else NaN)"

text \<open>The number a string converts to in arithmetic (\<open>ToNumber\<close>).\<close>

definition string_to_number :: "string \<Rightarrow> number" where
  "string_to_number s =
     (let t = trim s
      in if t = [] then Fin 0
         else if take 2 t = ''0x'' \<or> take 2 t = ''0X'' then radix_literal 16 (drop 2 t)
         else if take 2 t = ''0o'' \<or> take 2 t = ''0O'' then radix_literal 8 (drop 2 t)
         else if take 2 t = ''0b'' \<or> take 2 t = ''0B'' then radix_literal 2 (drop 2 t)
         else (case parse_signed t of
                 None \<Rightarrow> NaN
               | Some (v, rest) \<Rightarrow> if rest = [] then v else NaN))"

fun ToNumber :: "jsval \<Rightarrow> number" where
  "ToNumber Undefined = NaN"
| "ToNumber Null = Fin 0"
| "ToNumber (Bool b) = Fin (if b then 1 else 0)"
| "ToNumber (Num n) = n"
| "ToNumber (Str s) = string_to_number s"

fun truthy :: "jsval \<Rightarrow> bool" where
  "truthy Undefined = False"
| "truthy Null = False"
| "truthy (Bool b) = b"
| "truthy (Num n) = (n \<noteq> NaN \<and> n \<noteq> Fin 0)"
| "truthy (Str s) = (s \<noteq> [])"

subsection \<open>Writing numbers\<close>

text \<open>
  The text of a number: its decimal expansion, exact up to 20 fraction digits.
  The exponent notation of very large and very small numbers is left out.
\<close>

fun nat_text :: "nat \<Rightarrow> string" where
  "nat_text n = (if n < 10 then [char_of (48 + n)] else nat_text (n div 10) @ [char_of (48 + n mod 10)])"

fun frac_text :: "nat \<Rightarrow> real \<Rightarrow> string" where
  "frac_text 0 x = []"
| "frac_text (Suc k) x =
     (if x = 0 then []
      else char_of (48 + nat \<lfloor>x * 10\<rfloor>) # frac_text k (x * 10 - real_of_int \<lfloor>x * 10\<rfloor>))"

fun number_text :: "number \<Rightarrow> string" where
  "number_text NaN = ''NaN''"
| "number_text PosInf = ''Infinity''"
| "number_text NegInf = ''-Infinity''"
| "number_text (Fin x) =
     (if x < 0 then ''-'' else []) @ nat_text (nat \<lfloor>\<bar>x\<bar>\<rfloor>) @
     (if frac \<bar>x\<bar> = 0 then [] else ''.'' @ frac_text 20 (frac \<bar>x\<bar>))"

fun ToString :: "jsval \<Rightarrow> string" where
  "ToString Undefined = ''undefined''"
| "ToString Null = ''null''"
| "ToString (Bool b) = (if b then ''true'' else ''false'')"
| "ToString (Num n) = number_text n"
| "ToString (Str s) = s"

text \<open>A string that may be \<open>undefined\<close>, in a template or as a property key.\<close>

definition opt_text :: "string option \<Rightarrow> string" where
  "opt_text s = (case s of None \<Rightarrow> ''undefined'' | Some t \<Rightarrow> t)"

text \<open>\<open>a || b\<close> on strings that may be \<open>undefined\<close>.\<close>

definition or_else :: "string option \<Rightarrow> string option \<Rightarrow> string option" where
  "or_else a b = (case a of None \<Rightarrow> b | Some s \<Rightarrow> if s = [] then b else Some s)"

definition join :: "string \<Rightarrow> string list \<Rightarrow> string" where
  "join sep xs = (case xs of [] \<Rightarrow> [] | x # r \<Rightarrow> foldl (\<lambda>a y. a @ sep @ y) x r)"

subsection \<open>Arrays\<close>

text \<open>
  \<open>xs.sort(cmp)\<close>: stable, an element moves behind another only when the comparator
  is positive; a NaN result counts as 0. Where a comparator is not consistent the
  standard leaves the order open; this is the order of an insertion sort.
\<close>

fun insert_by :: "('a \<Rightarrow> 'a \<Rightarrow> number) \<Rightarrow> 'a \<Rightarrow> 'a list \<Rightarrow> 'a list" where
  "insert_by cmp x [] = [x]"
| "insert_by cmp x (y # ys) =
     (if num_less (Fin 0) (cmp x y) then y # insert_by cmp x ys else x # y # ys)"

definition js_sort :: "('a \<Rightarrow> 'a \<Rightarrow> number) \<Rightarrow> 'a list \<Rightarrow> 'a list" where
  "js_sort cmp xs = foldr (insert_by cmp) xs []"

text \<open>
  \<open>xs.slice(0, n)\<close>: \<open>n\<close> is truncated to an integer; a negative \<open>n\<close> counts
  from the end.
\<close>

definition trunc :: "real \<Rightarrow> int" where
  "trunc x = (if x < 0 then \<lceil>x\<rceil> else \<lfloor>x\<rfloor>)"

fun slice_to :: "number \<Rightarrow> 'a list \<Rightarrow> 'a list" where
  "slice_to NaN xs = []"
| "slice_to NegInf xs = []"
| "slice_to PosInf xs = xs"
| "slice_to (Fin x) xs =
     (if trunc x < 0 then take (nat (int (length xs) + trunc x)) xs else take (nat (trunc x)) xs)"

text \<open>\<open>n || 10\<close> on a number that may be \<open>undefined\<close>.\<close>

definition or_ten :: "number option \<Rightarrow> number" where
  "or_ten n = (case n of None \<Rightarrow> Fin 10 | Some v \<Rightarrow> if truthy (Num v) then v else Fin 10)"

section \<open>csvTools.js\<close>

subsection \<open>Objects\<close>

definition get_prop :: "obj \<Rightarrow> string \<Rightarrow> jsval" where
  "get_prop r k = (case map_of r k of None \<Rightarrow> Undefined | Some v \<Rightarrow> v)"

definition keys :: "obj \<Rightarrow> string list" where
  "keys r = map fst r"

text \<open>
  An array index is the canonical decimal string of an integer below \<open>2^32 - 1\<close>;
  such keys are enumerated first, in ascending order, the other keys after them in
  insertion order.
\<close>

definition is_array_index :: "string \<Rightarrow> bool" where
  "is_array_index k =
     (k \<noteq> [] \<and> list_all is_digit k \<and> (k = ''0'' \<or> hd k \<noteq> CHR ''0'') \<and> digits_val k < 4294967295)"

fun insert_index :: "string \<Rightarrow> jsval \<Rightarrow> obj \<Rightarrow> obj" where
  "insert_index k v [] = [(k, v)]"
| "insert_index k v ((k', v') # r) =
     (if is_array_index k' \<and> digits_val k' < digits_val k then (k', v') # insert_index k v r
      else (k, v) # (k', v') # r)"

fun replace_prop :: "string \<Rightarrow> jsval \<Rightarrow> obj \<Rightarrow> obj" where
  "replace_prop k v [] = []"
| "replace_prop k v ((k', v') # r) =
     (if k' = k then (k, v) # r else (k', v') # replace_prop k v r)"

text \<open>\<open>o[k] = v\<close>, as a new object.\<close>

definition obj_put :: "obj \<Rightarrow> string \<Rightarrow> jsval \<Rightarrow> obj" where
  "obj_put r k v =
     (if k \<in> set (keys r) then replace_prop k v r
      else if is_array_index k then insert_index k v r
      else r @ [(k, v)])"

subsection \<open>parseLine and parseCsvToRows\<close>

fun parseLine_loop :: "string \<Rightarrow> string list \<Rightarrow> string \<Rightarrow> bool \<Rightarrow> string list" where
  "parseLine_loop [] result current inQuotes = result @ [trim current]"
| "parseLine_loop (ch # rest) result current inQuotes =
     (if ch = CHR 0x22 then parseLine_loop rest result current (\<not> inQuotes)
      else if ch = CHR '','' \<and> \<not> inQuotes then parseLine_loop rest (result @ [trim current]) [] inQuotes
      else parseLine_loop rest result (current @ [ch]) inQuotes)"

definition parseLine :: "string \<Rightarrow> string list" where
  "parseLine line = parseLine_loop line [] [] False"

text \<open>\<open>s.replace(/^"|"$/g, '')\<close>: one quote off the front, one off the end.\<close>

definition strip_quotes :: "string \<Rightarrow> string" where
  "strip_quotes s =
     (let s1 = (case s of [] \<Rightarrow> [] | c # r \<Rightarrow> if c = CHR 0x22 then r else s)
      in if s1 \<noteq> [] \<and> last s1 = CHR 0x22 then butlast s1 else s1)"

record csv =
  headers :: "string list"
  rows :: "obj list"

text \<open>\<open>vals[i] || ''\<close>: a missing or empty field is the empty string.\<close>

definition field_at :: "string list \<Rightarrow> nat \<Rightarrow> string" where
  "field_at vals i = (if i < length vals then vals ! i else [])"

definition row_of_line :: "string list \<Rightarrow> string \<Rightarrow> obj" where
  "row_of_line hs line =
     (let vals = parseLine line
      in foldl (\<lambda>ob (i, h). obj_put ob h (Str (strip_quotes (field_at vals i)))) []
           (zip [0 ..< length hs] hs))"

definition parseCsvToRows :: "string \<Rightarrow> csv" where
  "parseCsvToRows text =
     (let lines = filter (\<lambda>l. trim l \<noteq> []) (split_on CHR 0x0A text)
      in if length lines < 2 then \<lparr>headers = [], rows = []\<rparr>
         else let hs = map strip_quotes (parseLine (hd lines))
              in \<lparr>headers = hs, rows = map (row_of_line hs) (tl lines)\<rparr>)"

subsection \<open>Column lookup and math helpers\<close>

definition norm :: "string \<Rightarrow> string" where
  "norm s = filter (\<lambda>c. \<not> (is_ws c \<or> c = CHR ''_'' \<or> c = CHR ''-'')) (toLowerCase s)"

text \<open>The requested name \<open>name\<close> may be \<open>undefined\<close>.\<close>

definition resolveCol :: "obj list \<Rightarrow> string option \<Rightarrow> string option" where
  "resolveCol rs name =
     (if rs = [] \<or> name = None \<or> name = Some [] then name
      else if the name \<in> set (keys (hd rs)) then name
      else or_else (find (\<lambda>k. norm k = norm (the name)) (keys (hd rs))) name)"


text \<open>An index out of range reads \<open>undefined\<close>, which adds up to NaN.\<close>

definition median :: "number list \<Rightarrow> number" where
  "median srt =
     (if length srt mod 2 = 0
      then (if srt = [] then NaN
            else num_div (num_add (srt ! (length srt div 2 - 1)) (srt ! (length srt div 2))) (Fin 2))
      else srt ! (length srt div 2))"

definition fmt :: "number \<Rightarrow> number" where
  "fmt n = round_fixed 4 n"

subsection \<open>enrichWithEngagement\<close>

definition favorite_count_rx :: "atom list list" where
  "favorite_count_rx = [lit ''favorite'' @ [OptDot] @ lit ''count'']"

definition likes_rx :: "atom list list" where
  "likes_rx = [lit ''like'' @ [OptL CHR ''s'']]"

definition view_count_rx :: "atom list list" where
  "view_count_rx = [lit ''view'' @ [OptDot] @ lit ''count'']"

definition views_rx :: "atom list list" where
  "views_rx = [lit ''view'' @ [OptL CHR ''s'']]"

definition engagement_of :: "string \<Rightarrow> string \<Rightarrow> obj \<Rightarrow> jsval" where
  "engagement_of favCol viewCol r =
     (let fav = parseFloat (get_prop r favCol);
          view = parseFloat (get_prop r viewCol)
      in if \<not> isNaN fav \<and> \<not> isNaN view \<and> num_less (Fin 0) view
         then Num (round_fixed 6 (num_div fav view))
         else Null)"

definition enrichWithEngagement :: "obj list \<Rightarrow> string list \<Rightarrow> csv" where
  "enrichWithEngagement rs hs =
     (if rs = [] then \<lparr>headers = hs, rows = rs\<rparr>
      else
        let favCol = or_else (find (rx_test_any favorite_count_rx) hs) (find (rx_test_full likes_rx) hs);
            viewCol = or_else (find (rx_test_any view_count_rx) hs) (find (rx_test_full views_rx) hs)
        in if favCol = None \<or> favCol = Some [] \<or> viewCol = None \<or> viewCol = Some []
           then \<lparr>headers = hs, rows = rs\<rparr>
           else if ''engagement'' \<in> set hs then \<lparr>headers = hs, rows = rs\<rparr>
           else \<lparr>headers = hs @ [''engagement''],
                 rows = map (\<lambda>r. obj_put r ''engagement'' (engagement_of (the favCol) (the viewCol) r)) rs\<rparr>)"

subsection \<open>executeTool\<close>

text \<open>The arguments the model sends, by the declared schema; each may be missing.\<close>

record csv_args =
  arg_column :: "string option"
  arg_top_n :: "number option"
  arg_sort_column :: "string option"
  arg_n :: "number option"
  arg_ascending :: "bool option"

record stats =
  stat_count :: nat
  stat_mean :: number
  stat_median :: number
  stat_std :: number
  stat_min :: number
  stat_max :: number

datatype tool_result =
    Error string
  | ColumnStats "string option" stats
  | ValueCounts "string option" nat obj
  | TopTweets "string option" string nat "obj list"

definition dq :: string where
  "dq = [CHR 0x22]"

definition availableHeaders :: "obj list \<Rightarrow> string list" where
  "availableHeaders rs = (if rs \<noteq> [] then keys (hd rs) else [])"


text \<open>\<open>counts[v] = (counts[v] || 0) + 1\<close>, keyed by the string of the value.\<close>

definition bump :: "obj \<Rightarrow> jsval \<Rightarrow> obj" where
  "bump counts v =
     obj_put counts (ToString v)
       (Num (num_add (if truthy (get_prop counts (ToString v)) then ToNumber (get_prop counts (ToString v))
                      else Fin 0) (Fin 1)))"


definition text_rx :: "atom list list" where
  "text_rx = [lit ''text'']"

definition text_like_rx :: "atom list list" where
  "text_like_rx = [lit ''text'', lit ''content'', lit ''tweet'', lit ''body'']"

text \<open>The projection of one ranked row; \<open>i\<close> is its index in the page.\<close>

definition top_row :: "string option \<Rightarrow> string option \<Rightarrow> string option \<Rightarrow> bool \<Rightarrow> nat \<Rightarrow> obj \<Rightarrow> obj" where
  "top_row textCol favCol viewCol engCol i r =
     (let out0 = [(''rank'', Num (Fin (real (i + 1))))];
          out1 = (if textCol \<noteq> None \<and> textCol \<noteq> Some []
                  then obj_put out0 ''text''
                         (Str (take 150 (ToString (if truthy (get_prop r (the textCol))
                                                   then get_prop r (the textCol) else Str []))))
                  else out0);
          out2 = (if favCol \<noteq> None \<and> favCol \<noteq> Some []
                  then obj_put out1 (the favCol) (get_prop r (the favCol)) else out1);
          out3 = (if viewCol \<noteq> None \<and> viewCol \<noteq> Some []
                  then obj_put out2 (the viewCol) (get_prop r (the viewCol)) else out2)
      in if engCol then obj_put out3 ''engagement'' (get_prop r ''engagement'') else out3)"



section \<open>youtubeTools.js\<close>

text \<open>\<open>a || b\<close> on values.\<close>

definition js_or :: "jsval \<Rightarrow> jsval \<Rightarrow> jsval" where
  "js_or a b = (if truthy a then a else b)"

subsection \<open>parseDuration\<close>

text \<open>
  One optional group \<open>(?:(\d+)X)?\<close> at the head of a string: the digits and the rest
  behind the unit letter, when the group is there.
\<close>

definition duration_group :: "char \<Rightarrow> string \<Rightarrow> nat \<times> string" where
  "duration_group unit s =
     (let ds = takeWhile is_digit s; r = dropWhile is_digit s
      in if ds \<noteq> [] \<and> r \<noteq> [] \<and> hd r = unit then (parseInt_digits ds, tl r) else (0, s))"

text \<open>
  \<open>dur.match(/PT(?:(\d+)H)?(?:(\d+)M)?(?:(\d+)S)?/)\<close>: the match starts at the
  leftmost \<open>PT\<close>; the result is the seconds the groups add up to.
\<close>

fun match_duration :: "string \<Rightarrow> nat option" where
  "match_duration [] = None"
| "match_duration (c # s) =
     (if c = CHR ''P'' \<and> s \<noteq> [] \<and> hd s = CHR ''T''
      then (let (h, r1) = duration_group CHR ''H'' (tl s);
                (m, r2) = duration_group CHR ''M'' r1;
                (sec, r3) = duration_group CHR ''S'' r2
            in Some (h * 3600 + m * 60 + sec))
      else match_duration s)"

text \<open>The result is \<open>null\<close> (\<open>None\<close>) or a number of seconds.\<close>

fun parseDuration :: "jsval \<Rightarrow> nat option" where
  "parseDuration (Str dur) = (if dur = [] then None else match_duration dur)"
| "parseDuration _ = None"

subsection \<open>executeYoutubeTool\<close>

record channel_data =
  videos :: "obj list option"

record yt_args =
  arg_prompt :: "string option"
  arg_use_anchor :: "bool option"
  arg_metric_field :: "string option"
  arg_selector :: "string option"
  arg_field :: "string option"

record play_card =
  card_title :: jsval
  card_thumbnail_url :: jsval
  card_video_url :: jsval
  card_video_id :: jsval

text \<open>
  \<open>'img\<close> is what the image generator returns (a promise the caller awaits).
  \<open>Threw\<close> is an exception leaving the function.
\<close>

datatype 'img yt_result =
    YtError string
  | Threw string
  | Generated 'img
  | MetricVsTime "(jsval \<times> number) list" "string option"
  | PlayVideo play_card
  | StatsJson "string option" stats

definition is_duration_field :: "string option \<Rightarrow> bool" where
  "is_duration_field field = (field = Some ''duration'' \<or> field = Some ''duration_seconds'')"

text \<open>The value a video contributes for a field: a number, or \<open>null\<close> (\<open>None\<close>).\<close>

definition field_value :: "string option \<Rightarrow> obj \<Rightarrow> number option" where
  "field_value field v =
     (let val = get_prop v (opt_text field)
      in if is_duration_field field
         then (case parseDuration (js_or (get_prop v ''duration'') (get_prop v ''duration_seconds'')) of
                 Some secs \<Rightarrow> Some (Fin (real secs))
               | None \<Rightarrow> (case val of Num n \<Rightarrow> Some n | _ \<Rightarrow> None))
         else (case val of Num n \<Rightarrow> Some n | _ \<Rightarrow> Some (parseFloat val)))"

text \<open>
  \<open>dateOf\<close> is the time value of \<open>new Date(d)\<close>, which the runtime computes: NaN
  for a date it cannot read.
\<close>

definition plot_metric_vs_time ::
  "(jsval \<Rightarrow> number) \<Rightarrow> yt_args \<Rightarrow> obj list \<Rightarrow> 'img yt_result" where
  "plot_metric_vs_time dateOf args vs =
     (let field = arg_metric_field args;
          withDates =
            js_sort (\<lambda>a b. num_sub (dateOf (fst a)) (dateOf (fst b)))
              (concat (map (\<lambda>v.
                 let date = js_or (get_prop v ''published_at'') (get_prop v ''release_date'')
                 in case field_value field v of
                      None \<Rightarrow> []
                    | Some val \<Rightarrow> if truthy date \<and> \<not> isNaN val then [(date, val)] else []) vs))
      in if withDates = []
         then YtError (''No valid data for field '' @ dq @ opt_text field @ dq @ ''. Available: '' @
                       join '', '' (case vs of [] \<Rightarrow> [] | v # _ \<Rightarrow> keys v))
         else MetricVsTime withDates field)"

text \<open>The own keys of the literal \<open>ordinals\<close>.\<close>

definition ordinals :: "(string \<times> nat) list" where
  "ordinals = [(''first'', 0), (''second'', 1), (''third'', 2), (''fourth'', 3), (''fifth'', 4),
     (''1st'', 0), (''2nd'', 1), (''3rd'', 2), (''4th'', 3), (''5th'', 4)]"

text \<open>
  The lower-case names \<open>ordinals\<close> inherits: looked up, they give a function or an
  object, which is not \<open>null\<close> and is no index of an array.
\<close>

definition inherited_ordinal :: "string \<Rightarrow> bool" where
  "inherited_ordinal sel = (sel = ''constructor'' \<or> sel = ''__proto__'')"

text \<open>\<open>sel.match(/^video\s+(\d+)$/)\<close>: the digits of the group.\<close>

definition videoNumMatch :: "string \<Rightarrow> string option" where
  "videoNumMatch sel =
     (if take 5 sel = ''video'' then
        (let r = drop 5 sel; ds = dropWhile is_ws r
         in if r \<noteq> [] \<and> is_ws (hd r) \<and> ds \<noteq> [] \<and> list_all is_digit ds then Some ds else None)
      else None)"

text \<open>\<open>videos[i]\<close> for an integer \<open>i\<close>; out of range it is \<open>undefined\<close>.\<close>

definition video_at :: "obj list \<Rightarrow> int \<Rightarrow> obj option" where
  "video_at vs i = (if 0 \<le> i \<and> i < int (length vs) then Some (vs ! nat i) else None)"

text \<open>
  \<open>videos.find((v) => (v.title || '').toLowerCase().includes(sel))\<close>: a title that is
  neither a string nor falsy has no \<open>toLowerCase\<close>, and the call throws.
\<close>

fun find_by_title :: "string \<Rightarrow> obj list \<Rightarrow> string + obj option" where
  "find_by_title sel [] = Inr None"
| "find_by_title sel (v # vs) =
     (case js_or (get_prop v ''title'') (Str []) of
        Str t \<Rightarrow> if str_includes (toLowerCase t) sel then Inr (Some v) else find_by_title sel vs
      | _ \<Rightarrow> Inl ''TypeError'')"

definition view_count_or_zero :: "obj \<Rightarrow> number" where
  "view_count_or_zero v = ToNumber (js_or (get_prop v ''view_count'') (Num (Fin 0)))"

definition select_video :: "string \<Rightarrow> obj list \<Rightarrow> string + obj option" where
  "select_video sel vs =
     (if sel = ''first'' \<or> sel = ''1'' then Inr (video_at vs 0)
      else if map_of ordinals sel \<noteq> None then Inr (video_at vs (int (the (map_of ordinals sel))))
      else if inherited_ordinal sel then Inr None
      else if videoNumMatch sel \<noteq> None
        then Inr (video_at vs (int (parseInt_digits (the (videoNumMatch sel))) - 1))
      else if sel \<noteq> [] \<and> list_all is_digit sel \<and> 0 \<le> int (parseInt_digits sel) - 1
        then Inr (video_at vs (int (parseInt_digits sel) - 1))
      else if sel = ''last'' \<or> sel = ''most recent'' then Inr (video_at vs (int (length vs) - 1))
      else if sel = ''most viewed''
        then Inr (video_at (js_sort (\<lambda>a b. num_sub (view_count_or_zero b) (view_count_or_zero a)) vs) 0)
      else if sel = ''least viewed''
        then Inr (video_at (js_sort (\<lambda>a b. num_sub (view_count_or_zero a) (view_count_or_zero b)) vs) 0)
      else find_by_title sel vs)"

definition play_video :: "yt_args \<Rightarrow> obj list \<Rightarrow> 'img yt_result" where
  "play_video args vs =
     (let sel = trim (toLowerCase (case arg_selector args of None \<Rightarrow> [] | Some s \<Rightarrow> s))
      in case select_video sel vs of
           Inl e \<Rightarrow> Threw e
         | Inr None \<Rightarrow> YtError (''No video found for '' @ dq @ opt_text (arg_selector args) @ dq)
         | Inr (Some video) \<Rightarrow>
             PlayVideo \<lparr>
               card_title = js_or (get_prop video ''title'') (Str ''Video''),
               card_thumbnail_url =
                 (if truthy (get_prop video ''video_id'')
                  then Str (''https://img.youtube.com/vi/'' @ ToString (get_prop video ''video_id'') @
                            ''/hqdefault.jpg'')
                  else js_or (get_prop video ''thumbnail_url'') (Str [])),
               card_video_url =
                 js_or (get_prop video ''video_url'')
                   (Str (''https://www.youtube.com/watch?v='' @ ToString (get_prop video ''video_id''))),
               card_video_id = get_prop video ''video_id''\<rparr>)"

definition compute_stats_json :: "yt_args \<Rightarrow> obj list \<Rightarrow> 'img yt_result" where
  "compute_stats_json args vs =
     (let field = arg_field args;
          vals = filter (\<lambda>v. \<not> isNaN v)
                   (concat (map (\<lambda>v. case field_value field v of None \<Rightarrow> [] | Some n \<Rightarrow> [n]) vs))
      in if vals = []
         then YtError (''No numeric values for '' @ dq @ opt_text field @ dq @ ''. Available: '' @
                       join '', '' (case vs of [] \<Rightarrow> [] | v # _ \<Rightarrow> keys v))
         else
           let srt = js_sort (\<lambda>a b. num_sub a b) vals;
               sum = foldl num_add (Fin 0) srt;
               mean = num_div sum (Fin (real (length srt)));
               variance = num_div (foldl (\<lambda>a b. num_add a (num_sq (num_sub b mean))) (Fin 0) srt)
                            (Fin (real (length srt)));
               std = num_sqrt variance
           in StatsJson field \<lparr>stat_count = length srt, stat_mean = round_fixed 4 mean,
                stat_median = round_fixed 4 (median srt), stat_std = round_fixed 4 std,
                stat_min = srt ! 0, stat_max = srt ! (length srt - 1)\<rparr>)"

definition no_data_message :: string where
  "no_data_message =
     ''No YouTube channel data loaded. Please drag a channel JSON file into the chat first.''"

definition executeYoutubeTool ::
  "(jsval \<Rightarrow> number) \<Rightarrow> string \<Rightarrow> yt_args \<Rightarrow> channel_data option \<Rightarrow> 'anchor \<Rightarrow>
   (string option \<Rightarrow> 'anchor \<Rightarrow> 'img) option \<Rightarrow> 'img yt_result" where
  "executeYoutubeTool dateOf toolName args channelData anchorImage generateImageFn =
     (let vs = (case channelData of None \<Rightarrow> [] | Some cd \<Rightarrow> (case videos cd of None \<Rightarrow> [] | Some l \<Rightarrow> l))
      in if vs = [] \<and> toolName \<noteq> ''generateImage'' then YtError no_data_message
         else if toolName = ''generateImage''
           then (case generateImageFn of
                   None \<Rightarrow> YtError ''Image generation not available''
                 | Some g \<Rightarrow> Generated (g (arg_prompt args) anchorImage))
         else if toolName = ''plot_metric_vs_time'' then plot_metric_vs_time dateOf args vs
         else if toolName = ''play_video'' then play_video args vs
         else if toolName = ''compute_stats_json'' then compute_stats_json args vs
         else YtError (''Unknown tool: '' @ toolName))"

section \<open>openai.js: the function-calling loop\<close>


datatype role = System | User | Assistant























section \<open>Chat.js: the choice of the mode in handleSend\<close>

definition PYTHON_ONLY_KEYWORDS :: "atom list list" where
  "PYTHON_ONLY_KEYWORDS =
     [lit ''regression'', lit ''scatter'', lit ''histogram'', lit ''seaborn'', lit ''matplotlib'',
      lit ''numpy'', lit ''time'' @ [OptDot] @ lit ''series'', lit ''heatmap'',
      lit ''box'' @ [OptDot] @ lit ''plot'', lit ''violin'', lit ''distribut'',
      lit ''linear'' @ [OptDot] @ lit ''model'', lit ''logistic'', lit ''forecast'',
      lit ''trend'' @ [OptDot] @ lit ''line'']"

definition CODE_KEYWORDS :: "atom list list" where
  "CODE_KEYWORDS =
     [lit ''plot'', lit ''chart'', lit ''graph'', lit ''analyz'', lit ''statistic'', lit ''regression'',
      lit ''correlat'', lit ''histogram'', lit ''visualiz'', lit ''calculat'', lit ''compute'',
      lit ''run code'', lit ''write code'', lit ''execute'', lit ''pandas'', lit ''numpy'',
      lit ''matplotlib'', lit ''csv'', lit ''data'']"

text \<open>
  The state \<open>handleSend\<close> reads. \<open>csvContext\<close> and \<open>jsonContext\<close> are the files
  attached to this turn (only their presence is read here); \<open>sessionCsvRows\<close> and
  \<open>sessionJsonData\<close> are the data loaded in the session, \<open>None\<close> for \<open>null\<close>.
\<close>

record chat_state =
  chat_input :: string
  images :: "string list"
  csvContext :: bool
  jsonContext :: bool
  streaming :: bool
  activeSessionId :: "string option"
  sessionCsvRows :: "obj list option"
  sessionJsonData :: "channel_data option"

record routing =
  wantPythonOnly :: bool
  wantCode :: bool
  needsBase64 :: bool
  useTools :: bool
  useYoutubeTools :: bool
  useCodeExecution :: bool

definition routing_of :: "chat_state \<Rightarrow> routing" where
  "routing_of s =
     (let txt = trim (chat_input s);
          wpo = rx_test_words PYTHON_ONLY_KEYWORDS None txt;
          wc = (rx_test_words CODE_KEYWORDS None txt \<and> sessionCsvRows s = None)
      in \<lparr>wantPythonOnly = wpo,
          wantCode = wc,
          needsBase64 = (csvContext s \<and> wpo),
          useTools = (sessionCsvRows s \<noteq> None \<and> \<not> wpo \<and> \<not> wc \<and> \<not> csvContext s),
          useYoutubeTools = ((sessionJsonData s \<noteq> None \<or> images s \<noteq> []) \<and> sessionCsvRows s = None),
          useCodeExecution = (wpo \<or> wc)\<rparr>)"

text \<open>
  The branch \<open>handleSend\<close> takes: the YouTube tools, the CSV tools, or \<open>streamChat\<close>
  with the flag \<open>useCodeExecution\<close>.
\<close>

datatype path = YoutubeToolsPath | CsvToolsPath | StreamingPath bool

definition dispatch :: "routing \<Rightarrow> path" where
  "dispatch r =
     (if useYoutubeTools r then YoutubeToolsPath
      else if useTools r then CsvToolsPath
      else StreamingPath (useCodeExecution r))"

text \<open>\<open>None\<close>: \<open>handleSend\<close> returns at once and sends nothing.\<close>

definition handleSend_path :: "chat_state \<Rightarrow> path option" where
  "handleSend_path s =
     (if (trim (chat_input s) = [] \<and> images s = [] \<and> \<not> csvContext s \<and> \<not> jsonContext s)
         \<or> streaming s \<or> activeSessionId s = None \<or> activeSessionId s = Some []
      then None
      else Some (dispatch (routing_of s)))"

text \<open>
  A line is a piece of the text between two line feeds; it is blank when it holds
  white space only.
\<close>

definition non_blank_lines :: "string \<Rightarrow> string list" where
  "non_blank_lines text = filter (\<lambda>l. list_ex (\<lambda>c. \<not> is_ws c) l) (split_on CHR 0x0A text)"

section \<open>The store\<close>

text \<open>
  \<open>executeTool\<close> and \<open>executeYoutubeTool\<close> once more, with the arrays and objects they
  share and write made explicit. The input array (rows or videos) and its row objects are
  cells of a store; the executor gets the address of the array. Each array the source
  creates on the way to a \<open>sort\<close> (by \<open>map\<close>, \<open>filter\<close>, \<open>slice\<close>, a spread copy,
  \<open>Object.entries\<close>) and each object it fills is a new cell; \<open>sort\<close> and the writes to
  \<open>counts\<close> change the cell at their address. The values are computed as before, read
  through the store. An object a callback builds and returns is one new cell.
\<close>

text \<open>An address is an index into the store; \<open>alloc\<close> appends a new cell.\<close>

type_synonym addr = nat

datatype elem = P jsval | R addr

datatype cell = ObjCell obj | ArrCell "elem list"

type_synonym store = "cell list"

text \<open>\<open>[...]\<close>, \<open>{...}\<close> and every array method that returns a new array.\<close>

definition alloc :: "cell \<Rightarrow> store \<Rightarrow> addr \<times> store" where
  "alloc c h = (length h, h @ [c])"

fun alloc_all :: "cell list \<Rightarrow> store \<Rightarrow> addr list \<times> store" where
  "alloc_all [] h = ([], h)"
| "alloc_all (c # cs) h =
     (let (a, h1) = alloc c h; (as, h2) = alloc_all cs h1 in (a # as, h2))"

text \<open>Reading: the array or the object at an address, and the row objects of an array.\<close>

definition arr_at :: "store \<Rightarrow> addr \<Rightarrow> elem list" where
  "arr_at h a = (if a < length h then (case h ! a of ArrCell xs \<Rightarrow> xs | ObjCell ob \<Rightarrow> []) else [])"

definition obj_at :: "store \<Rightarrow> addr \<Rightarrow> obj" where
  "obj_at h a = (if a < length h then (case h ! a of ObjCell ob \<Rightarrow> ob | ArrCell xs \<Rightarrow> []) else [])"

definition obj_of :: "store \<Rightarrow> elem \<Rightarrow> obj" where
  "obj_of h e = (case e of R a \<Rightarrow> obj_at h a | P v \<Rightarrow> [])"

definition rows_at :: "store \<Rightarrow> addr \<Rightarrow> obj list" where
  "rows_at h a = map (obj_of h) (arr_at h a)"

definition num_of :: "elem \<Rightarrow> number" where
  "num_of e = (case e of P (Num n) \<Rightarrow> n | _ \<Rightarrow> NaN)"

definition nums_at :: "store \<Rightarrow> addr \<Rightarrow> number list" where
  "nums_at h a = map num_of (arr_at h a)"

text \<open>\<open>e[i]\<close> for an element \<open>e\<close> that is an array of values.\<close>

definition nth_val :: "store \<Rightarrow> elem \<Rightarrow> nat \<Rightarrow> jsval" where
  "nth_val h e i =
     (case e of
        R a \<Rightarrow> (if i < length (arr_at h a) then (case arr_at h a ! i of P v \<Rightarrow> v | R b \<Rightarrow> Undefined)
                else Undefined)
      | P v \<Rightarrow> Undefined)"

text \<open>
  The two writes of the source: \<open>xs.sort(cmp)\<close>, which sorts the array at its address,
  and the assignment to properties of an object.
\<close>

definition sort_in_place :: "(elem \<Rightarrow> elem \<Rightarrow> number) \<Rightarrow> addr \<Rightarrow> store \<Rightarrow> store" where
  "sort_in_place cmp a h = h[a := ArrCell (js_sort cmp (arr_at h a))]"

definition write_obj :: "addr \<Rightarrow> obj \<Rightarrow> store \<Rightarrow> store" where
  "write_obj a ob h = h[a := ObjCell ob]"

subsection \<open>executeTool on the store\<close>

definition compute_column_stats_st :: "csv_args \<Rightarrow> addr \<Rightarrow> store \<Rightarrow> tool_result \<times> store" where
  "compute_column_stats_st args rowsA h =
     (let rs = rows_at h rowsA;
          col = resolveCol rs (arg_column args);
          (mapped, h1) = alloc (ArrCell (map (\<lambda>r. P (Num (parseFloat (get_prop r (opt_text col))))) rs)) h;
          (vals, h2) = alloc (ArrCell (filter (\<lambda>v. \<not> isNaN (num_of v)) (arr_at h1 mapped))) h1
      in if arr_at h2 vals = []
         then (Error (''No numeric values found in column '' @ dq @ opt_text col @ dq @
                      ''. Available columns: '' @ join '', '' (availableHeaders rs)), h2)
         else
           let mean = num_div (foldl num_add (Fin 0) (nums_at h2 vals))
                        (Fin (real (length (arr_at h2 vals))));
               (srt, h3) = alloc (ArrCell (arr_at h2 vals)) h2;
               h4 = sort_in_place (\<lambda>a b. num_sub (num_of a) (num_of b)) srt h3;
               variance = num_div (foldl (\<lambda>a b. num_add a (num_sq (num_sub b mean))) (Fin 0)
                                     (nums_at h4 vals))
                            (Fin (real (length (arr_at h4 vals))))
           in (ColumnStats col \<lparr>stat_count = length (arr_at h4 vals), stat_mean = fmt mean,
                 stat_median = fmt (median (nums_at h4 srt)), stat_std = fmt (num_sqrt variance),
                 stat_min = Math_min (nums_at h4 vals), stat_max = Math_max (nums_at h4 vals)\<rparr>, h4))"

definition get_value_counts_st :: "csv_args \<Rightarrow> addr \<Rightarrow> store \<Rightarrow> tool_result \<times> store" where
  "get_value_counts_st args rowsA h =
     (let rs = rows_at h rowsA;
          col = resolveCol rs (arg_column args);
          topN = or_ten (arg_top_n args);
          (counts, h1) = alloc (ObjCell []) h;
          h2 = foldl (\<lambda>s e.
                  let v = get_prop (obj_of s e) (opt_text col)
                  in if v \<noteq> Undefined \<and> v \<noteq> Str [] then write_obj counts (bump (obj_at s counts) v) s
                     else s) h1 (arr_at h1 rowsA);
          (pairs, h3) = alloc_all (map (\<lambda>(k, v). ArrCell [P (Str k), P v]) (obj_at h2 counts)) h2;
          (entries, h4) = alloc (ArrCell (map R pairs)) h3;
          h5 = sort_in_place (\<lambda>a b. num_sub (ToNumber (nth_val h4 b 1)) (ToNumber (nth_val h4 a 1)))
                 entries h4;
          (top, h6) = alloc (ArrCell (slice_to topN (arr_at h5 entries))) h5;
          (res, h7) = alloc (ObjCell (foldl (\<lambda>ob e. obj_put ob (ToString (nth_val h6 e 0)) (nth_val h6 e 1))
                                        [] (arr_at h6 top))) h6
      in (ValueCounts col (length rs) (obj_at h7 res), h7))"

definition get_top_tweets_st :: "csv_args \<Rightarrow> addr \<Rightarrow> store \<Rightarrow> tool_result \<times> store" where
  "get_top_tweets_st args rowsA h =
     (let rs = rows_at h rowsA;
          sortCol = or_else (resolveCol rs (arg_sort_column args)) (arg_sort_column args);
          n = or_ten (arg_n args);
          asc = (case arg_ascending args of None \<Rightarrow> False | Some b \<Rightarrow> b);
          textCol = or_else (find (rx_test_full text_rx) (availableHeaders rs))
                      (find (rx_test_any text_like_rx) (availableHeaders rs));
          favCol = find (rx_test_any favorite_count_rx) (availableHeaders rs);
          viewCol = find (rx_test_any view_count_rx) (availableHeaders rs);
          engCol = (''engagement'' \<in> set (availableHeaders rs));
          (srt, h1) = alloc (ArrCell (arr_at h rowsA)) h;
          h2 = sort_in_place (\<lambda>a b.
                  let av = parseFloat (get_prop (obj_of h1 a) (opt_text sortCol));
                      bv = parseFloat (get_prop (obj_of h1 b) (opt_text sortCol))
                  in if \<not> isNaN av \<and> \<not> isNaN bv
                     then (if asc then num_sub av bv else num_sub bv av)
                     else Fin 0) srt h1;
          (page, h3) = alloc (ArrCell (slice_to n (arr_at h2 srt))) h2;
          (outs, h4) = alloc_all (map (\<lambda>(i, e). ObjCell (top_row textCol favCol viewCol engCol i (obj_of h3 e)))
                                   (zip [0 ..< length (arr_at h3 page)] (arr_at h3 page))) h3;
          (topRows, h5) = alloc (ArrCell (map R outs)) h4
      in if arr_at h5 topRows = []
         then (Error (''No rows found. Column '' @ dq @ opt_text sortCol @ dq @
                      '' may not exist. Available: '' @ join '', '' (availableHeaders rs)), h5)
         else (TopTweets sortCol
                 (if asc then ''ascending (lowest first)'' else ''descending (highest first)'')
                 (length (arr_at h5 topRows)) (rows_at h5 topRows), h5))"

definition executeTool_st :: "string \<Rightarrow> csv_args \<Rightarrow> addr \<Rightarrow> store \<Rightarrow> tool_result \<times> store" where
  "executeTool_st toolName args rowsA h =
     (if toolName = ''compute_column_stats'' then compute_column_stats_st args rowsA h
      else if toolName = ''get_value_counts'' then get_value_counts_st args rowsA h
      else if toolName = ''get_top_tweets'' then get_top_tweets_st args rowsA h
      else (Error (''Unknown tool: '' @ toolName), h))"

subsection \<open>executeYoutubeTool on the store\<close>

text \<open>\<open>filter(Boolean)\<close> keeps the objects and drops \<open>null\<close>.\<close>

definition is_ref :: "elem \<Rightarrow> bool" where
  "is_ref e = (case e of R a \<Rightarrow> True | P v \<Rightarrow> False)"

text \<open>The objects a \<open>map\<close> callback returns, \<open>null\<close> (\<open>None\<close>) where it returns none.\<close>

fun alloc_opts :: "obj option list \<Rightarrow> store \<Rightarrow> elem list \<times> store" where
  "alloc_opts [] h = ([], h)"
| "alloc_opts (None # os) h = (let (es, h1) = alloc_opts os h in (P Null # es, h1))"
| "alloc_opts (Some ob # os) h =
     (let (a, h1) = alloc (ObjCell ob) h; (es, h2) = alloc_opts os h1 in (R a # es, h2))"

definition point_of :: "string option \<Rightarrow> obj \<Rightarrow> obj option" where
  "point_of field v =
     (let date = js_or (get_prop v ''published_at'') (get_prop v ''release_date'')
      in case field_value field v of
           None \<Rightarrow> None
         | Some val \<Rightarrow> if truthy date \<and> \<not> isNaN val then Some [(''date'', date), (''value'', Num val)]
                       else None)"

definition plot_metric_vs_time_st ::
  "(jsval \<Rightarrow> number) \<Rightarrow> yt_args \<Rightarrow> addr \<Rightarrow> store \<Rightarrow> 'img yt_result \<times> store" where
  "plot_metric_vs_time_st dateOf args videosA h =
     (let field = arg_metric_field args;
          (points, h1) = alloc_opts (map (\<lambda>e. point_of field (obj_of h e)) (arr_at h videosA)) h;
          (mapped, h2) = alloc (ArrCell points) h1;
          (withDates, h3) = alloc (ArrCell (filter is_ref (arr_at h2 mapped))) h2;
          h4 = sort_in_place (\<lambda>a b. num_sub (dateOf (get_prop (obj_of h3 a) ''date''))
                                        (dateOf (get_prop (obj_of h3 b) ''date''))) withDates h3
      in if arr_at h4 withDates = []
         then (YtError (''No valid data for field '' @ dq @ opt_text field @ dq @ ''. Available: '' @
                        join '', '' (case rows_at h videosA of [] \<Rightarrow> [] | v # _ \<Rightarrow> keys v)), h4)
         else (MetricVsTime (map (\<lambda>e. (get_prop (obj_of h4 e) ''date'',
                                       ToNumber (get_prop (obj_of h4 e) ''value'')))
                               (arr_at h4 withDates)) field, h4))"

definition select_video_st :: "string \<Rightarrow> addr \<Rightarrow> store \<Rightarrow> (string + obj option) \<times> store" where
  "select_video_st sel videosA h =
     (if sel = ''first'' \<or> sel = ''1'' then (Inr (video_at (rows_at h videosA) 0), h)
      else if map_of ordinals sel \<noteq> None
        then (Inr (video_at (rows_at h videosA) (int (the (map_of ordinals sel)))), h)
      else if inherited_ordinal sel then (Inr None, h)
      else if videoNumMatch sel \<noteq> None
        then (Inr (video_at (rows_at h videosA) (int (parseInt_digits (the (videoNumMatch sel))) - 1)), h)
      else if sel \<noteq> [] \<and> list_all is_digit sel \<and> 0 \<le> int (parseInt_digits sel) - 1
        then (Inr (video_at (rows_at h videosA) (int (parseInt_digits sel) - 1)), h)
      else if sel = ''last'' \<or> sel = ''most recent''
        then (Inr (video_at (rows_at h videosA) (int (length (arr_at h videosA)) - 1)), h)
      else if sel = ''most viewed''
        then (let (cp, h1) = alloc (ArrCell (arr_at h videosA)) h;
                  h2 = sort_in_place (\<lambda>a b. num_sub (view_count_or_zero (obj_of h1 b))
                                                (view_count_or_zero (obj_of h1 a))) cp h1
              in (Inr (video_at (rows_at h2 cp) 0), h2))
      else if sel = ''least viewed''
        then (let (cp, h1) = alloc (ArrCell (arr_at h videosA)) h;
                  h2 = sort_in_place (\<lambda>a b. num_sub (view_count_or_zero (obj_of h1 a))
                                                (view_count_or_zero (obj_of h1 b))) cp h1
              in (Inr (video_at (rows_at h2 cp) 0), h2))
      else (find_by_title sel (rows_at h videosA), h))"

definition play_video_st :: "yt_args \<Rightarrow> addr \<Rightarrow> store \<Rightarrow> 'img yt_result \<times> store" where
  "play_video_st args videosA h =
     (let sel = trim (toLowerCase (case arg_selector args of None \<Rightarrow> [] | Some s \<Rightarrow> s));
          (found, h1) = select_video_st sel videosA h
      in (case found of
            Inl e \<Rightarrow> Threw e
          | Inr None \<Rightarrow> YtError (''No video found for '' @ dq @ opt_text (arg_selector args) @ dq)
          | Inr (Some video) \<Rightarrow>
              PlayVideo \<lparr>
                card_title = js_or (get_prop video ''title'') (Str ''Video''),
                card_thumbnail_url =
                  (if truthy (get_prop video ''video_id'')
                   then Str (''https://img.youtube.com/vi/'' @ ToString (get_prop video ''video_id'') @
                             ''/hqdefault.jpg'')
                   else js_or (get_prop video ''thumbnail_url'') (Str [])),
                card_video_url =
                  js_or (get_prop video ''video_url'')
                    (Str (''https://www.youtube.com/watch?v='' @ ToString (get_prop video ''video_id''))),
                card_video_id = get_prop video ''video_id''\<rparr>, h1))"

definition compute_stats_json_st :: "yt_args \<Rightarrow> addr \<Rightarrow> store \<Rightarrow> 'img yt_result \<times> store" where
  "compute_stats_json_st args videosA h =
     (let field = arg_field args;
          (mapped, h1) = alloc (ArrCell (map (\<lambda>e. case field_value field (obj_of h e) of
                                                    None \<Rightarrow> P Null | Some n \<Rightarrow> P (Num n))
                                           (arr_at h videosA))) h;
          (vals, h2) = alloc (ArrCell (filter (\<lambda>e. e \<noteq> P Null \<and> \<not> isNaN (num_of e)) (arr_at h1 mapped))) h1
      in if arr_at h2 vals = []
         then (YtError (''No numeric values for '' @ dq @ opt_text field @ dq @ ''. Available: '' @
                        join '', '' (case rows_at h videosA of [] \<Rightarrow> [] | v # _ \<Rightarrow> keys v)), h2)
         else
           let h3 = sort_in_place (\<lambda>a b. num_sub (num_of a) (num_of b)) vals h2;
               sum = foldl num_add (Fin 0) (nums_at h3 vals);
               mean = num_div sum (Fin (real (length (arr_at h3 vals))));
               variance = num_div (foldl (\<lambda>a b. num_add a (num_sq (num_sub b mean))) (Fin 0)
                                     (nums_at h3 vals))
                            (Fin (real (length (arr_at h3 vals))));
               std = num_sqrt variance
           in (StatsJson field \<lparr>stat_count = length (arr_at h3 vals), stat_mean = round_fixed 4 mean,
                 stat_median = round_fixed 4 (median (nums_at h3 vals)), stat_std = round_fixed 4 std,
                 stat_min = nums_at h3 vals ! 0,
                 stat_max = nums_at h3 vals ! (length (arr_at h3 vals) - 1)\<rparr>, h3))"

text \<open>\<open>videosA\<close> is the array \<open>channelData.videos\<close>, \<open>None\<close> when there is none.\<close>

definition executeYoutubeTool_st ::
  "(jsval \<Rightarrow> number) \<Rightarrow> string \<Rightarrow> yt_args \<Rightarrow> addr option \<Rightarrow> 'anchor \<Rightarrow>
   (string option \<Rightarrow> 'anchor \<Rightarrow> 'img) option \<Rightarrow> store \<Rightarrow> 'img yt_result \<times> store" where
  "executeYoutubeTool_st dateOf toolName args videosA anchorImage generateImageFn h =
     (let (vs, h0) = (case videosA of None \<Rightarrow> alloc (ArrCell []) h | Some a \<Rightarrow> (a, h))
      in if arr_at h0 vs = [] \<and> toolName \<noteq> ''generateImage'' then (YtError no_data_message, h0)
         else if toolName = ''generateImage''
           then (case generateImageFn of
                   None \<Rightarrow> (YtError ''Image generation not available'', h0)
                 | Some g \<Rightarrow> (Generated (g (arg_prompt args) anchorImage), h0))
         else if toolName = ''plot_metric_vs_time'' then plot_metric_vs_time_st dateOf args vs h0
         else if toolName = ''play_video'' then play_video_st args vs h0
         else if toolName = ''compute_stats_json'' then compute_stats_json_st args vs h0
         else (YtError (''Unknown tool: '' @ toolName), h0))"

text \<open>
  The array at \<open>a\<close> is in the store, and so is every object it refers to.
\<close>

definition well_formed :: "store \<Rightarrow> addr \<Rightarrow> bool" where
  "well_formed h a =
     (a < length h \<and> list_all (\<lambda>e. case e of R b \<Rightarrow> b < length h | P v \<Rightarrow> True) (arr_at h a))"

section \<open>Notions of the specification\<close>








text \<open>No videos are loaded: the channel data is absent, or its list of videos is absent or empty.\<close>

definition no_videos :: "channel_data option \<Rightarrow> bool" where
  "no_videos channelData =
     (case channelData of
        None \<Rightarrow> True
      | Some cd \<Rightarrow> (case videos cd of None \<Rightarrow> True | Some l \<Rightarrow> l = []))"

text \<open>
  A duration in the form the specification names, \<open>PT#H#M#S\<close> with each group
  optional: the whole string, from \<open>PT\<close> to the last unit.
\<close>

definition is_pt_duration :: "string \<Rightarrow> bool" where
  "is_pt_duration s =
     (take 2 s = ''PT'' \<and>
      snd (duration_group CHR ''S'' (snd (duration_group CHR ''M''
             (snd (duration_group CHR ''H'' (drop 2 s)))))) = [])"

section \<open>Properties\<close>

lemma trimEnd_empty_iff: "trimEnd s = [] \<longleftrightarrow> list_all is_ws s"
proof -
  have "dropWhile is_ws (rev s) = [] \<longleftrightarrow> (\<forall>c \<in> set (rev s). is_ws c)"
    by (simp add: dropWhile_eq_Nil_conv)
  then show ?thesis
    by (simp add: trimEnd_def list_all_iff)
qed

lemma trim_empty_iff: "trim s = [] \<longleftrightarrow> list_all is_ws s"
proof -
  have "list_all is_ws (dropWhile is_ws s) \<longleftrightarrow> list_all is_ws s"
    by (induction s) auto
  then show ?thesis
    by (simp add: trim_def trimStart_def trimEnd_empty_iff)
qed

lemma non_blank_lines_trim:
  "non_blank_lines text = filter (\<lambda>l. trim l \<noteq> []) (split_on CHR 0x0A text)"
  unfolding non_blank_lines_def
  by (rule filter_cong) (auto simp: trim_empty_iff list_all_iff list_ex_iff)

text \<open>
  C6. A text with fewer than two non-blank lines parses to the empty result, with no
  headers and no rows. The parser has no failing path on a string.
\<close>

theorem parseCsvToRows_few_lines:
  assumes "length (non_blank_lines text) < 2"
  shows "parseCsvToRows text = \<lparr>headers = [], rows = []\<rparr>"
  using assms by (simp add: parseCsvToRows_def non_blank_lines_trim)

theorem parseCsvToRows_few_lines_witness:
  "length (non_blank_lines ''id,views'') < 2 \<and>
   parseCsvToRows ''id,views'' = \<lparr>headers = [], rows = []\<rparr>"
proof -
  have h: "length (non_blank_lines ''id,views'') < 2"
    by (simp add: non_blank_lines_def is_ws_def)
  show ?thesis
    using h parseCsvToRows_few_lines [OF h] by simp
qed

subsection \<open>The choice of the mode\<close>

lemma python_only_not_empty: "\<not> rx_test_words PYTHON_ONLY_KEYWORDS None []"
  by code_simp

lemma trim_histogram: "trim ''plot a histogram of views'' = ''plot a histogram of views''"
  by code_simp

lemma histogram_is_python_only:
  "rx_test_words PYTHON_ONLY_KEYWORDS None (trim ''plot a histogram of views'')"
  by code_simp

text \<open>
  The pattern holds the stem \<open>distribut\<close> between two \<open>\b\<close>, so the word
  \<open>distribution\<close> does not match it.
\<close>

lemma distribution_is_not_python_only:
  "\<not> rx_test_words PYTHON_ONLY_KEYWORDS None ''show the distribution of views''"
  by code_simp

text \<open>
  C1, as stated, fails: with channel JSON loaded and no CSV dataset, a text that matches
  the Python-only keywords is sent down the YouTube-tools branch, not to code execution.
\<close>

theorem mode_python_only_counterexample:
  "wantPythonOnly (routing_of
      \<lparr>chat_input = ''plot a histogram of views'', images = [], csvContext = False,
       jsonContext = False, streaming = False, activeSessionId = Some ''s1'',
       sessionCsvRows = None, sessionJsonData = Some \<lparr>videos = Some []\<rparr>\<rparr>) \<and>
   handleSend_path
      \<lparr>chat_input = ''plot a histogram of views'', images = [], csvContext = False,
       jsonContext = False, streaming = False, activeSessionId = Some ''s1'',
       sessionCsvRows = None, sessionJsonData = Some \<lparr>videos = Some []\<rparr>\<rparr>
     = Some YoutubeToolsPath"
  using histogram_is_python_only
  by (simp add: handleSend_path_def dispatch_def routing_of_def Let_def trim_histogram)

text \<open>
  C1, amended. For every text that matches the Python-only keywords, in a turn that is
  sent: the flag \<open>useCodeExecution\<close> is set and the CSV tools are never chosen; the
  turn goes to \<open>streamChat\<close> with code execution whenever a CSV dataset is loaded, or
  neither channel JSON is loaded nor an image attached; otherwise (no CSV dataset, and
  channel JSON or an image) it goes to the YouTube tools.
\<close>

theorem mode_python_only:
  assumes "wantPythonOnly (routing_of s)"
    and "\<not> streaming s" and "activeSessionId s \<noteq> None" and "activeSessionId s \<noteq> Some []"
  shows "useCodeExecution (routing_of s) \<and> \<not> useTools (routing_of s) \<and>
         handleSend_path s =
           Some (if (sessionJsonData s \<noteq> None \<or> images s \<noteq> []) \<and> sessionCsvRows s = None
                 then YoutubeToolsPath else StreamingPath True)"
proof -
  from assms(1) have m: "rx_test_words PYTHON_ONLY_KEYWORDS None (trim (chat_input s))"
    by (simp add: routing_of_def Let_def)
  have ne: "trim (chat_input s) \<noteq> []"
  proof
    assume "trim (chat_input s) = []"
    with m have "rx_test_words PYTHON_ONLY_KEYWORDS None []" by simp
    with python_only_not_empty show False by blast
  qed
  show ?thesis
    using m ne assms(2-4)
    by (simp add: handleSend_path_def dispatch_def routing_of_def Let_def)
qed

text \<open>The example of C1: \<open>plot a histogram of views\<close> with a CSV dataset loaded.\<close>

theorem mode_python_only_witness:
  "wantPythonOnly (routing_of
      \<lparr>chat_input = ''plot a histogram of views'', images = [], csvContext = False,
       jsonContext = False, streaming = False, activeSessionId = Some ''s1'',
       sessionCsvRows = Some [[(''views'', Str ''10'')]], sessionJsonData = None\<rparr>) \<and>
   handleSend_path
      \<lparr>chat_input = ''plot a histogram of views'', images = [], csvContext = False,
       jsonContext = False, streaming = False, activeSessionId = Some ''s1'',
       sessionCsvRows = Some [[(''views'', Str ''10'')]], sessionJsonData = None\<rparr>
     = Some (StreamingPath True)"
proof -
  let ?s = "\<lparr>chat_input = ''plot a histogram of views'', images = [], csvContext = False,
       jsonContext = False, streaming = False, activeSessionId = Some ''s1'',
       sessionCsvRows = Some [[(''views'', Str ''10'')]], sessionJsonData = None\<rparr>"
  have h: "wantPythonOnly (routing_of ?s)"
    using histogram_is_python_only by (simp add: routing_of_def Let_def trim_histogram)
  show ?thesis
    using h mode_python_only [of ?s] by simp
qed

subsection \<open>The bound on the rounds\<close>






subsection \<open>Column statistics\<close>






















subsection \<open>Engagement\<close>





lemma enrich_present:
  "''engagement'' \<in> set hs \<Longrightarrow> enrichWithEngagement rs hs = \<lparr>headers = hs, rows = rs\<rparr>"
  by (simp add: enrichWithEngagement_def Let_def)

text \<open>
  C5. Enriching twice gives the same rows and the same headers as enriching once: when
  the first call adds the column, the second finds \<open>engagement\<close> among the headers
  and returns its input; when the first call returns its input, so does the second.
\<close>

theorem enrich_idempotent:
  "enrichWithEngagement (rows (enrichWithEngagement rs hs)) (headers (enrichWithEngagement rs hs))
     = enrichWithEngagement rs hs"
proof (cases "enrichWithEngagement rs hs = \<lparr>headers = hs, rows = rs\<rparr>")
  case True
  then show ?thesis by simp
next
  case False
  then have "headers (enrichWithEngagement rs hs) = hs @ [''engagement'']"
    by (auto simp: enrichWithEngagement_def Let_def split: if_splits)
  then have "''engagement'' \<in> set (headers (enrichWithEngagement rs hs))" by simp
  from enrich_present [OF this] show ?thesis by simp
qed

theorem enrich_idempotent_witness:
  "enrichWithEngagement
     (rows (enrichWithEngagement [[(''Favorite Count'', Str ''1''), (''View Count'', Str ''3'')]]
        [''Favorite Count'', ''View Count'']))
     (headers (enrichWithEngagement [[(''Favorite Count'', Str ''1''), (''View Count'', Str ''3'')]]
        [''Favorite Count'', ''View Count'']))
   = enrichWithEngagement [[(''Favorite Count'', Str ''1''), (''View Count'', Str ''3'')]]
        [''Favorite Count'', ''View Count'']"
  by (rule enrich_idempotent)




lemma round_fixed_close:
  assumes "\<bar>x\<bar> < 10 ^ 21" and "round_fixed d (Fin x) = Fin y"
  shows "\<bar>y - x\<bar> \<le> 1 / (2 * 10 ^ d)"
proof -
  define k where "k = \<lfloor>\<bar>x\<bar> * 10 ^ d + 1 / 2\<rfloor>"
  have y: "y = sgn x * real_of_int k / 10 ^ d"
    using assms by (simp add: k_def)
  have "real_of_int k \<le> \<bar>x\<bar> * 10 ^ d + 1 / 2" and "\<bar>x\<bar> * 10 ^ d + 1 / 2 < real_of_int k + 1"
    unfolding k_def by linarith+
  then have b: "\<bar>real_of_int k - \<bar>x\<bar> * 10 ^ d\<bar> \<le> 1 / 2" by linarith
  have "y - x = sgn x * (real_of_int k - \<bar>x\<bar> * 10 ^ d) / 10 ^ d"
    by (simp add: y field_simps) (simp add: sgn_if)
  then have "\<bar>y - x\<bar> = \<bar>sgn x\<bar> * \<bar>real_of_int k - \<bar>x\<bar> * 10 ^ d\<bar> / 10 ^ d"
    by (simp add: abs_mult)
  also have "\<dots> \<le> 1 * (1 / 2) / 10 ^ d"
    by (intro divide_right_mono mult_mono b) (auto simp: sgn_if)
  finally show ?thesis by simp
qed




subsection \<open>Durations\<close>

lemma no_pt_no_match: "\<not> str_includes s ''PT'' \<Longrightarrow> match_duration s = None"
proof (induction s)
  case Nil
  show ?case by simp
next
  case (Cons c s)
  then show ?case by (cases s) auto
qed

lemma parseDuration_no_pt: "\<not> str_includes s ''PT'' \<Longrightarrow> parseDuration (Str s) = None"
  by (simp add: no_pt_no_match)

lemma null_duration_excluded:
  assumes "parseDuration (js_or (get_prop v ''duration'') (get_prop v ''duration_seconds'')) = None"
    and "\<forall>n. get_prop v ''duration'' \<noteq> Num n"
  shows "field_value (Some ''duration'') v = None"
  using assms by (auto simp: field_value_def is_duration_field_def opt_text_def Let_def split: jsval.splits)

text \<open>
  C7. \<open>PT4M13S\<close> is 253 seconds, \<open>PT1H\<close> is 3600 seconds, and a string without
  \<open>PT\<close> such as \<open>4:13\<close> is \<open>null\<close>. The string \<open>EMPTY\<close> is no duration of the
  form \<open>PT#H#M#S\<close>, and yet it is read as 0 seconds, because the pattern is not
  anchored and finds \<open>PT\<close> inside it: \<open>compute_stats_json\<close> counts the video with
  the value 0.
\<close>

theorem parseDuration_cases:
  "parseDuration (Str ''PT4M13S'') = Some 253 \<and>
   parseDuration (Str ''PT1H'') = Some 3600 \<and>
   parseDuration (Str ''4:13'') = None \<and>
   \<not> is_pt_duration ''EMPTY'' \<and>
   parseDuration (Str ''EMPTY'') = Some 0 \<and>
   (compute_stats_json
      \<lparr>arg_prompt = None, arg_use_anchor = None, arg_metric_field = None, arg_selector = None,
       arg_field = Some ''duration''\<rparr>
      [[(''title'', Str ''A''), (''duration'', Str ''EMPTY'')]] :: unit yt_result)
     = StatsJson (Some ''duration'')
         \<lparr>stat_count = 1, stat_mean = Fin 0, stat_median = Fin 0, stat_std = Fin 0,
          stat_min = Fin 0, stat_max = Fin 0\<rparr>"
proof -
  have d: "parseDuration (Str ''PT4M13S'') = Some 253" "parseDuration (Str ''PT1H'') = Some 3600"
    "parseDuration (Str ''4:13'') = None" "parseDuration (Str ''EMPTY'') = Some 0"
    by (simp_all add: duration_group_def parseInt_digits_def digits_val_def digit_val_def
          is_digit_def code_def)
  have n: "\<not> is_pt_duration ''EMPTY''" by (simp add: is_pt_duration_def)
  have f: "field_value (Some ''duration'') [(''title'', Str ''A''), (''duration'', Str ''EMPTY'')] = Some (Fin 0)"
    by (simp add: field_value_def is_duration_field_def opt_text_def get_prop_def js_or_def
          duration_group_def parseInt_digits_def digits_val_def digit_val_def is_digit_def code_def)
  have s: "(compute_stats_json
      \<lparr>arg_prompt = None, arg_use_anchor = None, arg_metric_field = None, arg_selector = None,
       arg_field = Some ''duration''\<rparr>
      [[(''title'', Str ''A''), (''duration'', Str ''EMPTY'')]] :: unit yt_result)
     = StatsJson (Some ''duration'')
         \<lparr>stat_count = 1, stat_mean = Fin 0, stat_median = Fin 0, stat_std = Fin 0,
          stat_min = Fin 0, stat_max = Fin 0\<rparr>"
    by (simp add: compute_stats_json_def f isNaN_def js_sort_def median_def num_sub_def Let_def)
  from d n s show ?thesis by simp
qed


subsection \<open>play_video and the guard for missing data\<close>

lemma selectors_lower:
  "trim (toLowerCase ''most viewed'') = ''most viewed''"
  "trim (toLowerCase ''first'') = ''first''"
  "trim (toLowerCase ''4'') = ''4''"
  by code_simp+

lemma three_videos:
  assumes "map (\<lambda>v. get_prop v ''title'') vs = [a, b, c]"
  obtains v1 v2 v3 where "vs = [v1, v2, v3]"
    "get_prop v1 ''title'' = a" "get_prop v2 ''title'' = b" "get_prop v3 ''title'' = c"
proof -
  from assms have "length vs = 3" by (metis length_map length_Cons list.size(3) numeral_3_eq_3)
  then obtain v1 v2 v3 where "vs = [v1, v2, v3]"
    by (metis (no_types) length_0_conv length_Suc_conv numeral_3_eq_3)
  with assms that show thesis by simp
qed

lemma select_most_viewed:
  assumes "view_count_or_zero v1 = Fin 10" "view_count_or_zero v2 = Fin 30" "view_count_or_zero v3 = Fin 20"
  shows "select_video ''most viewed'' [v1, v2, v3] = Inr (Some v2)"
  using assms
  by (simp add: select_video_def ordinals_def inherited_ordinal_def videoNumMatch_def is_digit_def
        code_def js_sort_def num_sub_def video_at_def)

lemma select_first: "select_video ''first'' [v1, v2, v3] = Inr (Some v1)"
  by (simp add: select_video_def video_at_def)

lemma select_four: "select_video ''4'' [v1, v2, v3] = Inr None"
  by (simp add: select_video_def ordinals_def inherited_ordinal_def videoNumMatch_def is_digit_def
        code_def video_at_def parseInt_digits_def digits_val_def digit_val_def)

text \<open>
  C8. For a channel of three videos titled A, B, C with view counts 10, 30, 20 (whatever
  their other fields), \<open>play_video\<close> returns the card of B for the selector
  \<open>most viewed\<close>, the card of A for \<open>first\<close>, and an error result for \<open>4\<close>.
\<close>

theorem play_video_selectors:
  assumes "map (\<lambda>v. get_prop v ''title'') vs = [Str ''A'', Str ''B'', Str ''C'']"
    and "map (\<lambda>v. get_prop v ''view_count'') vs = [Num (Fin 10), Num (Fin 30), Num (Fin 20)]"
  shows "(\<exists>card. executeYoutubeTool dateOf ''play_video'' (args\<lparr>arg_selector := Some ''most viewed''\<rparr>)
                   (Some \<lparr>videos = Some vs\<rparr>) anchorImage generateImageFn = PlayVideo card \<and>
                 card_title card = Str ''B'') \<and>
         (\<exists>card. executeYoutubeTool dateOf ''play_video'' (args\<lparr>arg_selector := Some ''first''\<rparr>)
                   (Some \<lparr>videos = Some vs\<rparr>) anchorImage generateImageFn = PlayVideo card \<and>
                 card_title card = Str ''A'') \<and>
         executeYoutubeTool dateOf ''play_video'' (args\<lparr>arg_selector := Some ''4''\<rparr>)
           (Some \<lparr>videos = Some vs\<rparr>) anchorImage generateImageFn
           = YtError (''No video found for '' @ dq @ ''4'' @ dq)"
proof -
  from assms(1) obtain v1 v2 v3 where vs: "vs = [v1, v2, v3]" and
    t: "get_prop v1 ''title'' = Str ''A''" "get_prop v2 ''title'' = Str ''B''"
       "get_prop v3 ''title'' = Str ''C''"
    by (rule three_videos)
  from assms(2) have
    "view_count_or_zero v1 = Fin 10" "view_count_or_zero v2 = Fin 30" "view_count_or_zero v3 = Fin 20"
    by (simp_all add: vs view_count_or_zero_def js_or_def)
  note mv = select_most_viewed [OF this]
  show ?thesis
    by (simp add: executeYoutubeTool_def play_video_def vs selectors_lower mv select_first select_four
          t js_or_def opt_text_def)
qed


theorem play_video_selectors_witness:
  "map (\<lambda>v. get_prop v ''title'')
     [[(''video_id'', Str ''a1''), (''title'', Str ''A''), (''view_count'', Num (Fin 10))],
      [(''video_id'', Str ''b2''), (''title'', Str ''B''), (''view_count'', Num (Fin 30))],
      [(''video_id'', Str ''c3''), (''title'', Str ''C''), (''view_count'', Num (Fin 20))]]
     = [Str ''A'', Str ''B'', Str ''C''] \<and>
   map (\<lambda>v. get_prop v ''view_count'')
     [[(''video_id'', Str ''a1''), (''title'', Str ''A''), (''view_count'', Num (Fin 10))],
      [(''video_id'', Str ''b2''), (''title'', Str ''B''), (''view_count'', Num (Fin 30))],
      [(''video_id'', Str ''c3''), (''title'', Str ''C''), (''view_count'', Num (Fin 20))]]
     = [Num (Fin 10), Num (Fin 30), Num (Fin 20)] \<and>
   (\<exists>card. executeYoutubeTool (\<lambda>d. NaN) ''play_video''
        \<lparr>arg_prompt = None, arg_use_anchor = None, arg_metric_field = None,
         arg_selector = Some ''most viewed'', arg_field = None\<rparr>
        (Some \<lparr>videos = Some
          [[(''video_id'', Str ''a1''), (''title'', Str ''A''), (''view_count'', Num (Fin 10))],
           [(''video_id'', Str ''b2''), (''title'', Str ''B''), (''view_count'', Num (Fin 30))],
           [(''video_id'', Str ''c3''), (''title'', Str ''C''), (''view_count'', Num (Fin 20))]]\<rparr>)
        () (None :: (string option \<Rightarrow> unit \<Rightarrow> unit) option) = PlayVideo card \<and>
      card_title card = Str ''B'')"
proof -
  let ?vs = "[[(''video_id'', Str ''a1''), (''title'', Str ''A''), (''view_count'', Num (Fin 10))],
      [(''video_id'', Str ''b2''), (''title'', Str ''B''), (''view_count'', Num (Fin 30))],
      [(''video_id'', Str ''c3''), (''title'', Str ''C''), (''view_count'', Num (Fin 20))]]"
  have t: "map (\<lambda>v. get_prop v ''title'') ?vs = [Str ''A'', Str ''B'', Str ''C'']"
    by (simp add: get_prop_def)
  have c: "map (\<lambda>v. get_prop v ''view_count'') ?vs = [Num (Fin 10), Num (Fin 30), Num (Fin 20)]"
    by (simp add: get_prop_def)
  from play_video_selectors [OF t c, of "\<lambda>d. NaN"
      "\<lparr>arg_prompt = None, arg_use_anchor = None, arg_metric_field = None,
        arg_selector = None, arg_field = None\<rparr>" "()" "None :: (string option \<Rightarrow> unit \<Rightarrow> unit) option"]
  have "\<exists>card. executeYoutubeTool (\<lambda>d. NaN) ''play_video''
        \<lparr>arg_prompt = None, arg_use_anchor = None, arg_metric_field = None,
         arg_selector = Some ''most viewed'', arg_field = None\<rparr>
        (Some \<lparr>videos = Some ?vs\<rparr>) () (None :: (string option \<Rightarrow> unit \<Rightarrow> unit) option) = PlayVideo card \<and>
      card_title card = Str ''B''"
    by simp
  with t c show ?thesis by (intro conjI)
qed

text \<open>
  C9. With no videos loaded, every tool name other than \<open>generateImage\<close> gets the
  error of the guard for missing data; \<open>generateImage\<close> passes the guard and
  returns what the image generator returns for the prompt (or, when no generator was
  handed in, the error that image generation is not available).
\<close>

theorem no_data_guard:
  assumes "no_videos channelData"
  shows "(toolName \<noteq> ''generateImage'' \<longrightarrow>
            executeYoutubeTool dateOf toolName args channelData anchorImage generateImageFn
              = YtError no_data_message) \<and>
         executeYoutubeTool dateOf ''generateImage'' args channelData anchorImage (Some g)
           = Generated (g (arg_prompt args) anchorImage) \<and>
         executeYoutubeTool dateOf ''generateImage'' args channelData anchorImage None
           = YtError ''Image generation not available''"
proof -
  have vs: "(case channelData of None \<Rightarrow> [] | Some cd \<Rightarrow> (case videos cd of None \<Rightarrow> [] | Some l \<Rightarrow> l)) = []"
    using assms by (simp add: no_videos_def split: option.splits)
  show ?thesis
    unfolding executeYoutubeTool_def vs Let_def by simp
qed

theorem no_data_guard_witness:
  "no_videos (Some \<lparr>videos = Some []\<rparr>) \<and>
   executeYoutubeTool (\<lambda>d. NaN) ''compute_stats_json''
     \<lparr>arg_prompt = Some ''a red fox'', arg_use_anchor = None, arg_metric_field = None,
      arg_selector = None, arg_field = Some ''view_count''\<rparr> (Some \<lparr>videos = Some []\<rparr>) ()
     (Some (\<lambda>prompt anchor. prompt))
     = YtError no_data_message \<and>
   executeYoutubeTool (\<lambda>d. NaN) ''generateImage''
     \<lparr>arg_prompt = Some ''a red fox'', arg_use_anchor = None, arg_metric_field = None,
      arg_selector = None, arg_field = Some ''view_count''\<rparr> (Some \<lparr>videos = Some []\<rparr>) ()
     (Some (\<lambda>prompt anchor. prompt))
     = Generated (Some ''a red fox'')"
proof -
  have n: "no_videos (Some \<lparr>videos = Some []\<rparr>)" by (simp add: no_videos_def)
  have d: "''compute_stats_json'' \<noteq> ''generateImage''" by simp
  note g = no_data_guard [OF n, of "''compute_stats_json''" "\<lambda>d. NaN"
      "\<lparr>arg_prompt = Some ''a red fox'', arg_use_anchor = None, arg_metric_field = None,
        arg_selector = None, arg_field = Some ''view_count''\<rparr>" "()"
      "Some (\<lambda>prompt anchor. prompt)" "\<lambda>prompt anchor. prompt"]
  note g1 = g [THEN conjunct1, rule_format, OF d]
  note g2 = g [THEN conjunct2, THEN conjunct1]
  have e: "arg_prompt \<lparr>arg_prompt = Some ''a red fox'', arg_use_anchor = None, arg_metric_field = None,
        arg_selector = None, arg_field = Some ''view_count''\<rparr> = Some ''a red fox''" by simp
  show ?thesis
    using n g1 g2 unfolding e by (intro conjI)
qed

subsection \<open>The executors write new cells only\<close>

lemma prefix_update: "prefix h0 h \<Longrightarrow> length h0 \<le> a \<Longrightarrow> prefix h0 (h[a := c])"
  by (auto simp: prefix_def list_update_append)

lemma alloc_all_store: "snd (alloc_all cs h) = h @ cs"
  by (induction cs arbitrary: h) (simp_all add: alloc_def split_def)

lemma prefix_sort: "prefix h0 h \<Longrightarrow> length h0 \<le> a \<Longrightarrow> prefix h0 (sort_in_place cmp a h)"
  by (simp add: sort_in_place_def prefix_update)

lemma prefix_write: "prefix h0 h \<Longrightarrow> length h0 \<le> a \<Longrightarrow> prefix h0 (write_obj a ob h)"
  by (simp add: write_obj_def prefix_update)

lemma frame_alloc:
  assumes "prefix h0 h"
    and "\<And>a h1. prefix h0 h1 \<Longrightarrow> length h0 \<le> a \<Longrightarrow> prefix h0 (snd (k a h1))"
  shows "prefix h0 (snd (let (a, h1) = alloc c h in k a h1))"
proof -
  have "prefix h0 (h @ [c])" using assms(1) by (metis prefix_def append.assoc)
  moreover have "length h0 \<le> length h" using assms(1) by (simp add: prefix_length_le)
  ultimately show ?thesis using assms(2) by (simp add: alloc_def)
qed

lemma frame_alloc_all:
  assumes "prefix h0 h"
    and "\<And>as h1. prefix h0 h1 \<Longrightarrow> prefix h0 (snd (k as h1))"
  shows "prefix h0 (snd (let (as, h1) = alloc_all cs h in k as h1))"
proof -
  have "prefix h0 (h @ cs)" using assms(1) by (metis prefix_def append.assoc)
  then have "prefix h0 (snd (alloc_all cs h))" by (simp add: alloc_all_store)
  then show ?thesis using assms(2) by (simp add: split_def Let_def)
qed

lemma frame_let_store:
  fixes e :: store
  assumes "prefix h0 e" and "\<And>h1. prefix h0 h1 \<Longrightarrow> prefix h0 (snd (k h1))"
  shows "prefix h0 (snd (Let e k))"
  using assms by simp

lemma frame_let: "(\<And>x. prefix h0 (snd (k x))) \<Longrightarrow> prefix h0 (snd (Let e k))"
  by simp

lemma frame_if:
  "prefix h0 (snd x) \<Longrightarrow> prefix h0 (snd y) \<Longrightarrow> prefix h0 (snd (if b then x else y))"
  by simp

lemma frame_result: "prefix h0 h \<Longrightarrow> prefix h0 (snd (r, h))"
  by simp

lemmas frame_rules = frame_alloc frame_alloc_all frame_let_store frame_let frame_if frame_result
  prefix_sort prefix_write

lemma compute_column_stats_frame:
  "prefix h0 h \<Longrightarrow> prefix h0 (snd (compute_column_stats_st args rowsA h))"
  unfolding compute_column_stats_st_def
  by (intro frame_rules; assumption)

lemma counts_loop_frame:
  "prefix h0 h \<Longrightarrow> length h0 \<le> a \<Longrightarrow>
   prefix h0 (foldl (\<lambda>s e. let v = g s e in if c v then write_obj a (f s v) s else s) h es)"
  by (induction es arbitrary: h) (simp_all add: prefix_write Let_def)

lemma get_value_counts_frame:
  "prefix h0 h \<Longrightarrow> prefix h0 (snd (get_value_counts_st args rowsA h))"
  unfolding get_value_counts_st_def
  by (intro frame_rules counts_loop_frame; assumption)

lemma get_top_tweets_frame:
  "prefix h0 h \<Longrightarrow> prefix h0 (snd (get_top_tweets_st args rowsA h))"
  unfolding get_top_tweets_st_def
  by (intro frame_rules; assumption)

lemma executeTool_frame: "prefix h (snd (executeTool_st toolName args rowsA h))"
  by (simp add: executeTool_st_def compute_column_stats_frame get_value_counts_frame
        get_top_tweets_frame)


lemma alloc_opts_prefix: "prefix h0 h \<Longrightarrow> prefix h0 (snd (alloc_opts os h))"
proof (induction os h rule: alloc_opts.induct)
  case (1 h)
  then show ?case by simp
next
  case (2 os h)
  then show ?case by (simp add: split_def Let_def)
next
  case (3 ob os h)
  have "prefix h0 (h @ [ObjCell ob])" using "3.prems" by (metis prefix_def append.assoc)
  with "3.IH" [of "(length h, h @ [ObjCell ob])" "length h" "h @ [ObjCell ob]"]
  show ?case by (simp add: split_def alloc_def Let_def)
qed

lemma frame_alloc_opts:
  assumes "prefix h0 h"
    and "\<And>es h1. prefix h0 h1 \<Longrightarrow> prefix h0 (snd (k es h1))"
  shows "prefix h0 (snd (let (es, h1) = alloc_opts os h in k es h1))"
  using alloc_opts_prefix [OF assms(1)] assms(2) by (simp add: split_def Let_def)

lemma plot_metric_vs_time_frame:
  "prefix h0 h \<Longrightarrow> prefix h0 (snd (plot_metric_vs_time_st dateOf args videosA h))"
  unfolding plot_metric_vs_time_st_def
  by (intro frame_alloc_opts frame_rules; assumption)

lemma select_video_frame:
  "prefix h0 h \<Longrightarrow> prefix h0 (snd (select_video_st sel videosA h))"
  unfolding select_video_st_def
  by (intro frame_rules; assumption)

lemma frame_select:
  assumes "prefix h0 h"
    and "\<And>x h1. prefix h0 h1 \<Longrightarrow> prefix h0 (snd (k x h1))"
  shows "prefix h0 (snd (let (x, h1) = select_video_st sel videosA h in k x h1))"
  using select_video_frame [OF assms(1)] assms(2) by (simp add: split_def Let_def)

lemma play_video_frame:
  "prefix h0 h \<Longrightarrow> prefix h0 (snd (play_video_st args videosA h))"
  unfolding play_video_st_def
  by (intro frame_select frame_rules; assumption)

lemma compute_stats_json_frame:
  "prefix h0 h \<Longrightarrow> prefix h0 (snd (compute_stats_json_st args videosA h))"
  unfolding compute_stats_json_st_def
  by (intro frame_rules; assumption)

lemma executeYoutubeTool_frame:
  "prefix h (snd (executeYoutubeTool_st dateOf toolName args videosA anchorImage generateImageFn h))"
proof -
  obtain vs h0 where v: "(case videosA of None \<Rightarrow> alloc (ArrCell []) h | Some a \<Rightarrow> (a, h)) = (vs, h0)"
    by fastforce
  then have p: "prefix h h0"
    by (cases videosA) (auto simp: alloc_def)
  show ?thesis
    unfolding executeYoutubeTool_st_def v
    by (cases generateImageFn)
       (simp_all add: p plot_metric_vs_time_frame play_video_frame compute_stats_json_frame)
qed

lemma prefix_cells: "prefix h h' \<Longrightarrow> a < length h \<Longrightarrow> h' ! a = h ! a"
  by (auto simp: prefix_def nth_append)

lemma prefix_array:
  assumes "prefix h h'" and "well_formed h a"
  shows "arr_at h' a = arr_at h a \<and> rows_at h' a = rows_at h a"
proof -
  from assms(1) have l: "length h \<le> length h'" by (simp add: prefix_length_le)
  have a: "a < length h" using assms(2) by (simp add: well_formed_def)
  then have arr: "arr_at h' a = arr_at h a"
    using l prefix_cells [OF assms(1) a] by (simp add: arr_at_def)
  have "obj_of h' e = obj_of h e" if "e \<in> set (arr_at h a)" for e
  proof (cases e)
    case (P v)
    then show ?thesis by (simp add: obj_of_def)
  next
    case (R b)
    with that assms(2) have "b < length h"
      by (auto simp: well_formed_def list_all_iff)
    then show ?thesis
      using R l prefix_cells [OF assms(1)] by (simp add: obj_of_def obj_at_def)
  qed
  then show ?thesis
    by (simp add: rows_at_def arr)
qed

text \<open>
  C10. No tool executor changes its input: whatever the tool name and the arguments,
  every cell the store held before the call is the same after it (the store only
  grows), so the rows array holds the same references and every row has the same
  fields after \<open>executeTool\<close>, and likewise the videos array after
  \<open>executeYoutubeTool\<close>. The sorts of \<open>get_top_tweets\<close>, \<open>most viewed\<close> and
  \<open>least viewed\<close> work on copies.
\<close>

theorem executors_leave_input_unchanged:
  assumes "well_formed h rowsA" and "well_formed h videosA"
  shows "prefix h (snd (executeTool_st toolName args rowsA h)) \<and>
         arr_at (snd (executeTool_st toolName args rowsA h)) rowsA = arr_at h rowsA \<and>
         rows_at (snd (executeTool_st toolName args rowsA h)) rowsA = rows_at h rowsA \<and>
         prefix h (snd (executeYoutubeTool_st dateOf ytName ytArgs (Some videosA) anchorImage
                          generateImageFn h)) \<and>
         arr_at (snd (executeYoutubeTool_st dateOf ytName ytArgs (Some videosA) anchorImage
                        generateImageFn h)) videosA = arr_at h videosA \<and>
         rows_at (snd (executeYoutubeTool_st dateOf ytName ytArgs (Some videosA) anchorImage
                         generateImageFn h)) videosA = rows_at h videosA"
proof -
  note f1 = executeTool_frame [of h toolName args rowsA]
  note f2 = executeYoutubeTool_frame [of h dateOf ytName ytArgs "Some videosA" anchorImage generateImageFn]
  note a1 = prefix_array [OF f1 assms(1)]
  note a2 = prefix_array [OF f2 assms(2)]
  show ?thesis
    by (intro conjI f1 f2 a1 [THEN conjunct1] a1 [THEN conjunct2] a2 [THEN conjunct1]
          a2 [THEN conjunct2])
qed

theorem executors_leave_input_unchanged_witness:
  "well_formed
     [ObjCell [(''title'', Str ''A''), (''view_count'', Num (Fin 10))],
      ObjCell [(''title'', Str ''B''), (''view_count'', Num (Fin 30))],
      ArrCell [R 0, R 1]] 2 \<and>
   rows_at (snd (executeTool_st ''get_top_tweets''
       \<lparr>arg_column = None, arg_top_n = None, arg_sort_column = Some ''view_count'', arg_n = None,
        arg_ascending = None\<rparr> 2
       [ObjCell [(''title'', Str ''A''), (''view_count'', Num (Fin 10))],
        ObjCell [(''title'', Str ''B''), (''view_count'', Num (Fin 30))],
        ArrCell [R 0, R 1]])) 2
     = [[(''title'', Str ''A''), (''view_count'', Num (Fin 10))],
        [(''title'', Str ''B''), (''view_count'', Num (Fin 30))]] \<and>
   rows_at (snd (executeYoutubeTool_st (\<lambda>d. NaN) ''play_video''
       \<lparr>arg_prompt = None, arg_use_anchor = None, arg_metric_field = None,
        arg_selector = Some ''most viewed'', arg_field = None\<rparr> (Some 2) ()
       (None :: (string option \<Rightarrow> unit \<Rightarrow> unit) option)
       [ObjCell [(''title'', Str ''A''), (''view_count'', Num (Fin 10))],
        ObjCell [(''title'', Str ''B''), (''view_count'', Num (Fin 30))],
        ArrCell [R 0, R 1]])) 2
     = [[(''title'', Str ''A''), (''view_count'', Num (Fin 10))],
        [(''title'', Str ''B''), (''view_count'', Num (Fin 30))]]"
proof -
  let ?h = "[ObjCell [(''title'', Str ''A''), (''view_count'', Num (Fin 10))],
      ObjCell [(''title'', Str ''B''), (''view_count'', Num (Fin 30))],
      ArrCell [R 0, R 1]]"
  have w: "well_formed ?h 2"
    by (simp add: well_formed_def arr_at_def)
  have r: "rows_at ?h 2 = [[(''title'', Str ''A''), (''view_count'', Num (Fin 10))],
        [(''title'', Str ''B''), (''view_count'', Num (Fin 30))]]"
    by (simp add: rows_at_def arr_at_def obj_of_def obj_at_def)
  note t = executors_leave_input_unchanged [OF w w, of "''get_top_tweets''"
      "\<lparr>arg_column = None, arg_top_n = None, arg_sort_column = Some ''view_count'', arg_n = None,
        arg_ascending = None\<rparr>" "\<lambda>d. NaN" "''play_video''"
      "\<lparr>arg_prompt = None, arg_use_anchor = None, arg_metric_field = None,
        arg_selector = Some ''most viewed'', arg_field = None\<rparr>" "()"
      "None :: (string option \<Rightarrow> unit \<Rightarrow> unit) option"]
  note t1 = t [THEN conjunct2, THEN conjunct2, THEN conjunct1, unfolded r]
  note t2 = t [THEN conjunct2, THEN conjunct2, THEN conjunct2, THEN conjunct2, THEN conjunct2, unfolded r]
  show ?thesis
    by (intro conjI w t1 t2)
qed

end
